theory Spec2Isabelle
  imports Complex_Main "HOL-Library.AList" "HOL-Library.Multiset"
begin

section \<open>Values, errors and the pieces of the platform the service calls\<close>

text \<open>
  The service keeps whatever \<^verbatim>\<open>JSON.parse\<close> returned in \<^verbatim>\<open>this.database\<close>, so the
  run-time values are JSON values; \<^verbatim>\<open>null\<close> is \<open>JNull\<close>. An object is an association list
  read with \<open>map_of\<close>; a parsed document lists every key once. \<open>JArrWith xs ps\<close> is an
  array that has been given named properties \<open>ps\<close> by an assignment (the service can
  do that to \<^verbatim>\<open>this.database\<close> when a file holds an array); no parsed document
  contains one.
\<close>

datatype json =
    JNull
  | JBool bool
  | JNum rat
  | JStr string
  | JArr "json list"
  | JObj "(string \<times> json) list"
  | JArrWith "json list" "(string \<times> json) list"

datatype issue = Issue (path: "string list") (message: string)

text \<open>
  The error classes of \<^verbatim>\<open>src/types/index.ts\<close> and the foreign ones that reach the
  service: zod's \<open>ZodError\<close>, the engine's \<open>TypeError\<close>, a rejected file-system call or a
  \<^verbatim>\<open>JSON.parse\<close> failure (\<open>SystemError\<close>) and a plain \<^verbatim>\<open>new Error(msg)\<close>.
\<close>

datatype error =
    ZodError "issue list"
  | TypeError
  | SystemError
  | PlainError string
  | ValidationError string "issue list option"
  | NotFoundError string
  | DatabaseError string "error option"

text \<open>
  Library functions that are not code of this repository are parameters: zod's
  \<^verbatim>\<open>uuid()\<close> and \<^verbatim>\<open>datetime()\<close> string checks, the \<^verbatim>\<open>Date\<close> constructor
  (milliseconds since the epoch, \<open>None\<close> for an invalid date),
  \<^verbatim>\<open>Date.prototype.toISOString\<close>, \<^verbatim>\<open>String.prototype.localeCompare\<close> and
  \<^verbatim>\<open>String.prototype.toLowerCase\<close>. \<open>addDays t n\<close> is the instant of
  \<^verbatim>\<open>d = new Date(t); d.setDate(d.getDate() + n)\<close>: \<open>n\<close> days later on the calendar of
  the process's time zone (not always \<open>n\<close> times 24 hours), \<open>None\<close> when the date leaves
  the range of \<^verbatim>\<open>Date\<close>.
\<close>

record platform =
  is_uuid :: "string \<Rightarrow> bool"
  is_datetime :: "string \<Rightarrow> bool"
  new_Date :: "json \<Rightarrow> int option"
  toISOString :: "int \<Rightarrow> string"
  localeCompare :: "string \<Rightarrow> string \<Rightarrow> int"
  toLowerCase :: "string \<Rightarrow> string"
  addDays :: "int \<Rightarrow> int \<Rightarrow> int option"

subsection \<open>JavaScript operations on values\<close>

fun truthy :: "json \<Rightarrow> bool" where
  "truthy JNull = False"
| "truthy (JBool b) = b"
| "truthy (JNum q) = (q \<noteq> 0)"
| "truthy (JStr s) = (s \<noteq> [])"
| "truthy (JArr xs) = True"
| "truthy (JObj kvs) = True"
| "truthy (JArrWith xs ps) = True"

text \<open>An optional value is truthy when it is present and truthy (\<^verbatim>\<open>undefined\<close> is not).\<close>

definition truthy_opt :: "json option \<Rightarrow> bool" where
  "truthy_opt v = (case v of None \<Rightarrow> False | Some j \<Rightarrow> truthy j)"

definition truthy_str :: "string option \<Rightarrow> bool" where
  "truthy_str s = (case s of None \<Rightarrow> False | Some t \<Rightarrow> t \<noteq> [])"

text \<open>
  Reading \<^verbatim>\<open>v.key\<close> for one of the keys the service uses: a \<open>TypeError\<close> on
  \<^verbatim>\<open>null\<close>, the stored value on an object or on an array with named properties,
  \<^verbatim>\<open>undefined\<close> (\<open>None\<close>) on anything else.
\<close>

fun property :: "string \<Rightarrow> json \<Rightarrow> error + json option" where
  "property k JNull = Inl TypeError"
| "property k (JObj kvs) = Inr (map_of kvs k)"
| "property k (JArrWith xs ps) = Inr (map_of ps k)"
| "property k v = Inr None"

text \<open>
  Assigning \<^verbatim>\<open>v.key = x\<close> inside the class body (strict mode): an object gets or replaces
  the key, an array takes it as a named property beside its elements, any other value
  raises a \<open>TypeError\<close>.
\<close>

fun assign :: "string \<Rightarrow> json \<Rightarrow> json \<Rightarrow> error + json" where
  "assign k x (JObj kvs) = Inr (JObj (AList.update k x kvs))"
| "assign k x (JArr xs) = Inr (JArrWith xs [(k, x)])"
| "assign k x (JArrWith xs ps) = Inr (JArrWith xs (AList.update k x ps))"
| "assign k x v = Inl TypeError"

text \<open>Object spread \<^verbatim>\<open>{...a, ...b}\<close>: the keys of \<open>b\<close> are written over those of \<open>a\<close>.\<close>

definition spread :: "(string \<times> json) list \<Rightarrow> (string \<times> json) list \<Rightarrow> (string \<times> json) list" where
  "spread a b = foldl (\<lambda>acc (k, v). AList.update k v acc) a b"

text \<open>A key written with a value that may be \<^verbatim>\<open>undefined\<close>; zod reads such a key as absent.\<close>

definition put :: "string \<Rightarrow> json option \<Rightarrow> (string \<times> json) list \<Rightarrow> (string \<times> json) list" where
  "put k v kvs = (case v of None \<Rightarrow> AList.delete k kvs | Some x \<Rightarrow> AList.update k x kvs)"

text \<open>\<^verbatim>\<open>hay.includes(needle)\<close>\<close>

fun str_includes :: "string \<Rightarrow> string \<Rightarrow> bool" where
  "str_includes [] needle = (needle = [])"
| "str_includes (c # cs) needle = (take (length needle) (c # cs) = needle \<or> str_includes cs needle)"

section \<open>The zod schemas of src/types/index.ts\<close>

text \<open>
  A field validator maps the value found under the key (\<open>None\<close> when the key is absent) to
  the messages of the issues it raises. zod runs every check of a field and every field
  of an object, so the issues of all of them are collected.
\<close>

fun typeName :: "json \<Rightarrow> string" where
  "typeName JNull = ''null''"
| "typeName (JBool b) = ''boolean''"
| "typeName (JNum q) = ''number''"
| "typeName (JStr s) = ''string''"
| "typeName (JArr xs) = ''array''"
| "typeName (JObj kvs) = ''object''"
| "typeName (JArrWith xs ps) = ''array''"

definition invalid_type :: "string \<Rightarrow> json option \<Rightarrow> string" where
  "invalid_type expected v =
     (case v of None \<Rightarrow> ''Required''
      | Some j \<Rightarrow> ''Expected '' @ expected @ '', received '' @ typeName j)"

definition z_string :: "((string \<Rightarrow> bool) \<times> string) list \<Rightarrow> json option \<Rightarrow> string list" where
  "z_string checks v =
     (case v of
        Some (JStr s) \<Rightarrow> map snd (filter (\<lambda>(ok, msg). \<not> ok s) checks)
      | _ \<Rightarrow> [invalid_type ''string'' v])"

definition z_number :: "((rat \<Rightarrow> bool) \<times> string) list \<Rightarrow> json option \<Rightarrow> string list" where
  "z_number checks v =
     (case v of
        Some (JNum q) \<Rightarrow> map snd (filter (\<lambda>(ok, msg). \<not> ok q) checks)
      | _ \<Rightarrow> [invalid_type ''number'' v])"

definition z_optional :: "(json option \<Rightarrow> string list) \<Rightarrow> json option \<Rightarrow> string list" where
  "z_optional inner v = (case v of None \<Rightarrow> [] | Some j \<Rightarrow> inner v)"

definition isInteger :: "rat \<Rightarrow> bool" where
  "isInteger q = (of_int \<lfloor>q\<rfloor> = q)"

type_synonym shape = "(string \<times> (json option \<Rightarrow> string list)) list"

definition field_issues :: "shape \<Rightarrow> (string \<times> json) list \<Rightarrow> issue list" where
  "field_issues sh kvs =
     concat (map (\<lambda>(k, validator). map (Issue [k]) (validator (map_of kvs k))) sh)"

text \<open>The parsed output keeps the keys of the shape that the input has, in shape order.\<close>

definition strip :: "shape \<Rightarrow> (string \<times> json) list \<Rightarrow> (string \<times> json) list" where
  "strip sh kvs = List.map_filter (\<lambda>(k, validator). map_option (Pair k) (map_of kvs k)) sh"

definition z_object_parse :: "shape \<Rightarrow> json \<Rightarrow> issue list + json" where
  "z_object_parse sh v =
     (case v of
        JObj kvs \<Rightarrow>
          (if field_issues sh kvs = [] then Inr (JObj (strip sh kvs))
           else Inl (field_issues sh kvs))
      | _ \<Rightarrow> Inl [Issue [] (invalid_type ''object'' (Some v))])"

definition FoodItemSchema :: "platform \<Rightarrow> shape" where
  "FoodItemSchema P =
     [(''id'', z_string [(is_uuid P, ''Invalid uuid'')]),
      (''name'', z_string [(\<lambda>s. 1 \<le> length s, ''Name is required'')]),
      (''quantity'', z_number [(isInteger, ''Expected integer, received float''),
                               (\<lambda>q. 0 \<le> q, ''Quantity must be non-negative'')]),
      (''unit'', z_string [(\<lambda>s. 1 \<le> length s, ''Unit is required'')]),
      (''expirationDate'', z_optional (z_string [(is_datetime P, ''Invalid datetime'')])),
      (''category'', z_optional (z_string [])),
      (''location'', z_optional (z_string [])),
      (''notes'', z_optional (z_string [])),
      (''addedDate'', z_string [(is_datetime P, ''Invalid datetime'')]),
      (''lastModified'', z_string [(is_datetime P, ''Invalid datetime'')])]"

definition AddFoodItemRequestSchema :: "platform \<Rightarrow> shape" where
  "AddFoodItemRequestSchema P =
     [(''name'', z_string [(\<lambda>s. 1 \<le> length s, ''Name is required'')]),
      (''quantity'', z_number [(isInteger, ''Expected integer, received float''),
                               (\<lambda>q. 1 \<le> q, ''Quantity must be positive'')]),
      (''unit'', z_string [(\<lambda>s. 1 \<le> length s, ''Unit is required'')]),
      (''expirationDate'', z_optional (z_string [(is_datetime P, ''Invalid datetime'')])),
      (''category'', z_optional (z_string [])),
      (''location'', z_optional (z_string [])),
      (''notes'', z_optional (z_string []))]"

definition FoodItemSchema_parse :: "platform \<Rightarrow> json \<Rightarrow> issue list + json" where
  "FoodItemSchema_parse P v = z_object_parse (FoodItemSchema P) v"

definition AddFoodItemRequestSchema_parse :: "platform \<Rightarrow> json \<Rightarrow> issue list + json" where
  "AddFoodItemRequestSchema_parse P v = z_object_parse (AddFoodItemRequestSchema P) v"

section \<open>The file system\<close>

text \<open>
  The three paths of the service: \<^verbatim>\<open>fridge.json\<close>, \<^verbatim>\<open>fridge.backup.json\<close> and the
  temporary \<^verbatim>\<open>fridge.json.tmp\<close>. The text of a file is kept as what \<^verbatim>\<open>JSON.parse\<close>
  makes of it: \<open>Malformed\<close> when it throws, the parsed document otherwise, and
  \<^verbatim>\<open>JSON.stringify\<close> writes the document of a value. The ways a call can fail are flags
  of the disk.
\<close>

datatype path = DataPath | BackupPath | TempPath

datatype content = Malformed | Document json

record disk =
  files :: "path \<Rightarrow> content option"
  mkdir_fails :: bool
  unreadable :: "path \<Rightarrow> bool"
  copy_fails :: bool
  write_fails :: bool
  rename_fails :: bool

definition fs_mkdir :: "disk \<Rightarrow> error + unit" where
  "fs_mkdir d = (if mkdir_fails d then Inl SystemError else Inr ())"

definition fs_readFile :: "path \<Rightarrow> disk \<Rightarrow> error + content" where
  "fs_readFile p d =
     (if unreadable d p then Inl SystemError
      else case files d p of None \<Rightarrow> Inl SystemError | Some c \<Rightarrow> Inr c)"

definition fs_access :: "path \<Rightarrow> disk \<Rightarrow> error + unit" where
  "fs_access p d = (case files d p of None \<Rightarrow> Inl SystemError | Some c \<Rightarrow> Inr ())"

definition fs_copyFile :: "path \<Rightarrow> path \<Rightarrow> disk \<Rightarrow> error + disk" where
  "fs_copyFile src dst d =
     (if copy_fails d \<or> unreadable d src then Inl SystemError
      else case files d src of
             None \<Rightarrow> Inl SystemError
           | Some c \<Rightarrow> Inr (d\<lparr>files := (files d)(dst := Some c)\<rparr>))"

definition fs_writeFile :: "path \<Rightarrow> content \<Rightarrow> disk \<Rightarrow> error + disk" where
  "fs_writeFile p c d =
     (if write_fails d then Inl SystemError
      else Inr (d\<lparr>files := (files d)(p := Some c)\<rparr>))"

definition fs_rename :: "path \<Rightarrow> path \<Rightarrow> disk \<Rightarrow> error + disk" where
  "fs_rename src dst d =
     (if rename_fails d then Inl SystemError
      else case files d src of
             None \<Rightarrow> Inl SystemError
           | Some c \<Rightarrow> Inr (d\<lparr>files := (files d)(src := None, dst := Some c)\<rparr>))"

text \<open>The document \<^verbatim>\<open>JSON.stringify\<close> writes: the named properties of an array are left out.\<close>

fun JSON_stringify :: "json \<Rightarrow> json" where
  "JSON_stringify (JArrWith xs ps) = JArr xs"
| "JSON_stringify v = v"

definition JSON_parse :: "content \<Rightarrow> error + json" where
  "JSON_parse c = (case c of Malformed \<Rightarrow> Inl SystemError | Document j \<Rightarrow> Inr j)"

text \<open>\<^verbatim>\<open>JSON.parse(await fs.readFile(p, 'utf-8'))\<close>\<close>

definition read_json :: "path \<Rightarrow> disk \<Rightarrow> error + json" where
  "read_json p d = (case fs_readFile p d of Inl e \<Rightarrow> Inl e | Inr c \<Rightarrow> JSON_parse c)"

section \<open>FridgeDatabaseService\<close>

text \<open>
  The state of a service instance is its \<^verbatim>\<open>database\<close> field (\<open>JNull\<close> until a load
  stores something) together with the disk it works on. Every method returns its result
  or the error it throws, and the state it leaves. The clock is read as one instant
  \<open>now\<close> (milliseconds) per call, except inside the expiry filters, which read it
  once more for every item.
\<close>

record service =
  database :: json
  storage :: disk

definition new_service :: "disk \<Rightarrow> service" where
  "new_service d = \<lparr>database = JNull, storage = d\<rparr>"

definition createEmptyDatabase :: "platform \<Rightarrow> int \<Rightarrow> json" where
  "createEmptyDatabase P now =
     JObj [(''items'', JArr []),
           (''lastModified'', JStr (toISOString P now)),
           (''version'', JStr ''1.0.0'')]"

text \<open>The inner \<^verbatim>\<open>try { access; copyFile } catch {}\<close> of \<^verbatim>\<open>saveDatabase\<close>.\<close>

definition backup_step :: "disk \<Rightarrow> disk" where
  "backup_step d =
     (case fs_access DataPath d of
        Inl e \<Rightarrow> d
      | Inr u \<Rightarrow> (case fs_copyFile DataPath BackupPath d of Inl e \<Rightarrow> d | Inr d' \<Rightarrow> d'))"

text \<open>
  The argument of the last statement in the \<^verbatim>\<open>try\<close> block of \<^verbatim>\<open>saveDatabase\<close>,
  \<^verbatim>\<open>logDebug(..., { itemCount: this.database.items.length })\<close>: reading \<^verbatim>\<open>length\<close>
  throws a \<open>TypeError\<close> when \<^verbatim>\<open>items\<close> is \<^verbatim>\<open>undefined\<close> or \<^verbatim>\<open>null\<close>.
\<close>

definition items_length :: "json \<Rightarrow> error + unit" where
  "items_length db =
     (case property ''items'' db of
        Inl e \<Rightarrow> Inl e
      | Inr None \<Rightarrow> Inl TypeError
      | Inr (Some JNull) \<Rightarrow> Inl TypeError
      | Inr (Some v) \<Rightarrow> Inr ())"

definition saveDatabase :: "platform \<Rightarrow> int \<Rightarrow> service \<Rightarrow> (error + unit) \<times> service" where
  "saveDatabase P now st =
     (if \<not> truthy (database st) then (Inl (DatabaseError ''No database to save'' None), st)
      else
        let d1 = backup_step (storage st) in
        case assign ''lastModified'' (JStr (toISOString P now)) (database st) of
          Inl e \<Rightarrow>
            (Inl (DatabaseError ''Failed to save database'' (Some e)), st\<lparr>storage := d1\<rparr>)
        | Inr db \<Rightarrow>
            (case fs_writeFile TempPath (Document (JSON_stringify db)) d1 of
               Inl e \<Rightarrow>
                 (Inl (DatabaseError ''Failed to save database'' (Some e)),
                  \<lparr>database = db, storage = d1\<rparr>)
             | Inr d2 \<Rightarrow>
                 (case fs_rename TempPath DataPath d2 of
                    Inl e \<Rightarrow>
                      (Inl (DatabaseError ''Failed to save database'' (Some e)),
                       \<lparr>database = db, storage = d2\<rparr>)
                  | Inr d3 \<Rightarrow>
                      (case items_length db of
                         Inl e \<Rightarrow>
                           (Inl (DatabaseError ''Failed to save database'' (Some e)),
                            \<lparr>database = db, storage = d3\<rparr>)
                       | Inr u \<Rightarrow> (Inr (), \<lparr>database = db, storage = d3\<rparr>)))))"

text \<open>The inner \<^verbatim>\<open>try\<close>/\<^verbatim>\<open>catch\<close> cascade of \<^verbatim>\<open>loadDatabase\<close>: main file, backup, new database.\<close>

definition load_sources :: "platform \<Rightarrow> int \<Rightarrow> service \<Rightarrow> (error + unit) \<times> service" where
  "load_sources P now st =
     (case read_json DataPath (storage st) of
        Inr j \<Rightarrow> (Inr (), st\<lparr>database := j\<rparr>)
      | Inl e \<Rightarrow>
          (case read_json BackupPath (storage st) of
             Inr j \<Rightarrow>
               (case saveDatabase P now (st\<lparr>database := j\<rparr>) of
                  (Inr u, st1) \<Rightarrow> (Inr (), st1)
                | (Inl backupError, st1) \<Rightarrow>
                    saveDatabase P now (st1\<lparr>database := createEmptyDatabase P now\<rparr>))
           | Inl backupError \<Rightarrow>
               saveDatabase P now (st\<lparr>database := createEmptyDatabase P now\<rparr>)))"

definition isOk :: "'e + 'a \<Rightarrow> bool" where
  "isOk r = (case r of Inl e \<Rightarrow> False | Inr x \<Rightarrow> True)"

text \<open>The array under \<^verbatim>\<open>this.database.items\<close>, when there is one.\<close>

definition items_of :: "json \<Rightarrow> json list option" where
  "items_of db =
     (case property ''items'' db of Inr (Some (JArr xs)) \<Rightarrow> Some xs | _ \<Rightarrow> None)"

text \<open>The part of \<^verbatim>\<open>loadDatabase\<close> after the cascade: structure check, item filter, version.\<close>

definition load_validate :: "platform \<Rightarrow> int \<Rightarrow> service \<Rightarrow> (error + unit) \<times> service" where
  "load_validate P now st =
     (if \<not> truthy (database st) then (Inl (PlainError ''Invalid database structure''), st)
      else case items_of (database st) of
        None \<Rightarrow> (Inl (PlainError ''Invalid database structure''), st)
      | Some xs \<Rightarrow>
          (case assign ''items'' (JArr (filter (\<lambda>item. isOk (FoodItemSchema_parse P item)) xs))
                  (database st) of
             Inl e \<Rightarrow> (Inl e, st)
           | Inr db \<Rightarrow>
               (case property ''version'' db of
                  Inl e \<Rightarrow> (Inl e, st\<lparr>database := db\<rparr>)
                | Inr v \<Rightarrow>
                    if \<not> truthy_opt v then
                      (case assign ''version'' (JStr ''1.0.0'') db of
                         Inl e \<Rightarrow> (Inl e, st\<lparr>database := db\<rparr>)
                       | Inr db' \<Rightarrow> saveDatabase P now (st\<lparr>database := db'\<rparr>))
                    else (Inr (), st\<lparr>database := db\<rparr>))))"

definition loadDatabase :: "platform \<Rightarrow> int \<Rightarrow> service \<Rightarrow> (error + unit) \<times> service" where
  "loadDatabase P now st =
     (case load_sources P now st of
        (Inl e, st1) \<Rightarrow> (Inl (DatabaseError ''Failed to load database'' (Some e)), st1)
      | (Inr u, st1) \<Rightarrow>
          (case load_validate P now st1 of
             (Inl e, st2) \<Rightarrow> (Inl (DatabaseError ''Failed to load database'' (Some e)), st2)
           | (Inr u', st2) \<Rightarrow> (Inr (), st2)))"

definition initialize :: "platform \<Rightarrow> int \<Rightarrow> service \<Rightarrow> (error + unit) \<times> service" where
  "initialize P now st =
     (case fs_mkdir (storage st) of
        Inl e \<Rightarrow> (Inl (DatabaseError ''Database initialization failed'' (Some e)), st)
      | Inr u \<Rightarrow>
          (case loadDatabase P now st of
             (Inl e, st1) \<Rightarrow> (Inl (DatabaseError ''Database initialization failed'' (Some e)), st1)
           | (Inr u', st1) \<Rightarrow> (Inr (), st1)))"

subsection \<open>addFoodItem\<close>

text \<open>The \<^verbatim>\<open>catch\<close> block of \<^verbatim>\<open>addFoodItem\<close>: a \<open>ValidationError\<close> is rethrown, anything else is wrapped.\<close>

definition add_catch :: "error \<Rightarrow> error" where
  "add_catch e =
     (case e of
        ValidationError m i \<Rightarrow> e
      | _ \<Rightarrow> DatabaseError ''Failed to add food item'' (Some e))"

text \<open>
  The named own properties that an object spread \<^verbatim>\<open>{...v}\<close> copies. (An array also
  gives its indices and a string its positions; these are keys of no schema, and zod
  strips them before the result is used.)
\<close>

definition entries :: "json \<Rightarrow> (string \<times> json) list" where
  "entries v = (case v of JObj kvs \<Rightarrow> kvs | JArrWith xs ps \<Rightarrow> ps | _ \<Rightarrow> [])"

text \<open>
  An in-place change of the array \<^verbatim>\<open>this.database.items\<close> (\<^verbatim>\<open>push\<close>, \<^verbatim>\<open>splice\<close>,
  \<^verbatim>\<open>items[i] = x\<close>); it is only used where \<open>items_of\<close> found the array.
\<close>

definition with_items :: "json list \<Rightarrow> json \<Rightarrow> json" where
  "with_items xs db = (case assign ''items'' (JArr xs) db of Inr db' \<Rightarrow> db' | Inl e \<Rightarrow> db)"

text \<open>
  \<^verbatim>\<open>{ id: uuidv4(), ...validatedRequest, addedDate: now, lastModified: now }\<close>
\<close>

definition new_item :: "platform \<Rightarrow> int \<Rightarrow> string \<Rightarrow> json \<Rightarrow> json" where
  "new_item P now uuid validatedRequest =
     JObj (spread (spread [(''id'', JStr uuid)] (entries validatedRequest))
             [(''addedDate'', JStr (toISOString P now)),
              (''lastModified'', JStr (toISOString P now))])"

definition addFoodItem ::
  "platform \<Rightarrow> int \<Rightarrow> string \<Rightarrow> json \<Rightarrow> service \<Rightarrow> (error + json) \<times> service" where
  "addFoodItem P now uuid request st =
     (case AddFoodItemRequestSchema_parse P request of
        Inl issues \<Rightarrow> (Inl (add_catch (ZodError issues)), st)
      | Inr validatedRequest \<Rightarrow>
          (case FoodItemSchema_parse P (new_item P now uuid validatedRequest) of
             Inl issues \<Rightarrow> (Inl (add_catch (ZodError issues)), st)
           | Inr validatedItem \<Rightarrow>
               (if \<not> truthy (database st)
                then (Inl (add_catch (DatabaseError ''Database not initialized'' None)), st)
                else (case items_of (database st) of
                        None \<Rightarrow> (Inl (add_catch TypeError), st)
                      | Some xs \<Rightarrow>
                          (case saveDatabase P now
                                  (st\<lparr>database := with_items (xs @ [validatedItem]) (database st)\<rparr>) of
                             (Inl e, st1) \<Rightarrow> (Inl (add_catch e), st1)
                           | (Inr u, st1) \<Rightarrow> (Inr validatedItem, st1))))))"

subsection \<open>removeFoodItem\<close>

fun findIndex :: "(json \<Rightarrow> error + bool) \<Rightarrow> json list \<Rightarrow> error + nat option" where
  "findIndex p [] = Inr None"
| "findIndex p (x # xs) =
     (case p x of
        Inl e \<Rightarrow> Inl e
      | Inr True \<Rightarrow> Inr (Some 0)
      | Inr False \<Rightarrow>
          (case findIndex p xs of
             Inl e \<Rightarrow> Inl e
           | Inr None \<Rightarrow> Inr None
           | Inr (Some i) \<Rightarrow> Inr (Some (Suc i))))"

text \<open>\<^verbatim>\<open>item.id === id\<close>\<close>

definition id_is :: "string \<Rightarrow> json \<Rightarrow> error + bool" where
  "id_is i item =
     (case property ''id'' item of Inl e \<Rightarrow> Inl e | Inr v \<Rightarrow> Inr (v = Some (JStr i)))"

text \<open>\<^verbatim>\<open>item.name.toLowerCase() === name.toLowerCase()\<close>\<close>

definition name_is :: "platform \<Rightarrow> string \<Rightarrow> json \<Rightarrow> error + bool" where
  "name_is P n item =
     (case property ''name'' item of
        Inl e \<Rightarrow> Inl e
      | Inr (Some (JStr s)) \<Rightarrow> Inr (toLowerCase P s = toLowerCase P n)
      | Inr _ \<Rightarrow> Inl TypeError)"

text \<open>
  The predicate handed to \<^verbatim>\<open>findIndex\<close>:
  \<^verbatim>\<open>(id && item.id === id) || (name && item.name.toLowerCase() === name.toLowerCase())\<close>
\<close>

definition remove_match ::
  "platform \<Rightarrow> string option \<Rightarrow> string option \<Rightarrow> json \<Rightarrow> error + bool" where
  "remove_match P ident name item =
     (case (case ident of
              None \<Rightarrow> Inr False
            | Some i \<Rightarrow> if i = [] then Inr False else id_is i item) of
        Inl e \<Rightarrow> Inl e
      | Inr True \<Rightarrow> Inr True
      | Inr False \<Rightarrow>
          (case name of
             None \<Rightarrow> Inr False
           | Some n \<Rightarrow> if n = [] then Inr False else name_is P n item))"

definition not_found_message :: "string option \<Rightarrow> string option \<Rightarrow> string" where
  "not_found_message ident name =
     ''Food item not found'' @
       (if truthy_str ident then '' with id: '' @ (case ident of Some i \<Rightarrow> i | None \<Rightarrow> [])
        else '' with name: '' @ (case name of Some n \<Rightarrow> n | None \<Rightarrow> ''undefined''))"

definition removeFoodItem ::
  "platform \<Rightarrow> int \<Rightarrow> string option \<Rightarrow> string option \<Rightarrow> service \<Rightarrow> (error + json) \<times> service" where
  "removeFoodItem P now ident name st =
     (if \<not> truthy_str ident \<and> \<not> truthy_str name
      then (Inl (ValidationError ''Either id or name must be provided'' None), st)
      else if \<not> truthy (database st)
      then (Inl (DatabaseError ''Database not initialized'' None), st)
      else case items_of (database st) of
        None \<Rightarrow> (Inl TypeError, st)
      | Some xs \<Rightarrow>
          (case findIndex (remove_match P ident name) xs of
             Inl e \<Rightarrow> (Inl e, st)
           | Inr None \<Rightarrow> (Inl (NotFoundError (not_found_message ident name)), st)
           | Inr (Some itemIndex) \<Rightarrow>
               let removedItem = xs ! itemIndex in
               (case saveDatabase P now
                       (st\<lparr>database :=
                             with_items (take itemIndex xs @ drop (Suc itemIndex) xs) (database st)\<rparr>) of
                  (Inl e, st1) \<Rightarrow> (Inl e, st1)
                | (Inr u, st1) \<Rightarrow> (Inr removedItem, st1))))"

subsection \<open>listFoodItems\<close>

record ListFoodItemsRequest =
  category :: "string option"
  location :: "string option"
  expiringSoon :: "bool option"
  expiringSoonDays :: "int option"

fun filterE :: "(json \<Rightarrow> error + bool) \<Rightarrow> json list \<Rightarrow> error + json list" where
  "filterE p [] = Inr []"
| "filterE p (x # xs) =
     (case p x of
        Inl e \<Rightarrow> Inl e
      | Inr b \<Rightarrow>
          (case filterE p xs of
             Inl e \<Rightarrow> Inl e
           | Inr ys \<Rightarrow> Inr (if b then x # ys else ys)))"

text \<open>\<^verbatim>\<open>item[key]?.toLowerCase().includes(wanted.toLowerCase())\<close>\<close>

definition text_match :: "platform \<Rightarrow> string \<Rightarrow> string \<Rightarrow> json \<Rightarrow> error + bool" where
  "text_match P key wanted item =
     (case property key item of
        Inl e \<Rightarrow> Inl e
      | Inr None \<Rightarrow> Inr False
      | Inr (Some JNull) \<Rightarrow> Inr False
      | Inr (Some (JStr s)) \<Rightarrow> Inr (str_includes (toLowerCase P s) (toLowerCase P wanted))
      | Inr (Some v) \<Rightarrow> Inl TypeError)"

text \<open>
  The expiry test shared by \<^verbatim>\<open>listFoodItems\<close> and \<^verbatim>\<open>getStats\<close>:
  \<^verbatim>\<open>expirationDate <= thresholdDate && expirationDate >= new Date()\<close>. The
  \<^verbatim>\<open>new Date()\<close> is evaluated anew for each item; \<open>reading\<close> is what it returns for
  this item. A comparison with an invalid date is false.
\<close>

definition expires_by :: "platform \<Rightarrow> int option \<Rightarrow> int \<Rightarrow> json \<Rightarrow> error + bool" where
  "expires_by P thresholdDate reading item =
     (case property ''expirationDate'' item of
        Inl e \<Rightarrow> Inl e
      | Inr None \<Rightarrow> Inr False
      | Inr (Some v) \<Rightarrow>
          if \<not> truthy v then Inr False
          else (case new_Date P v of
                  None \<Rightarrow> Inr False
                | Some expirationDate \<Rightarrow>
                    Inr ((case thresholdDate of
                            None \<Rightarrow> False
                          | Some limit \<Rightarrow> expirationDate \<le> limit) \<and>
                         reading \<le> expirationDate)))"

text \<open>
  \<^verbatim>\<open>items.filter(item => ...)\<close> with a callback whose outcome depends on when it runs:
  \<open>p i\<close> is the test as it runs for the item at index \<open>i\<close>.
\<close>

fun filter_at :: "(nat \<Rightarrow> json \<Rightarrow> error + bool) \<Rightarrow> nat \<Rightarrow> json list \<Rightarrow> error + json list" where
  "filter_at p i [] = Inr []"
| "filter_at p i (x # xs) =
     (case p i x of
        Inl e \<Rightarrow> Inl e
      | Inr b \<Rightarrow>
          (case filter_at p (Suc i) xs of
             Inl e \<Rightarrow> Inl e
           | Inr ys \<Rightarrow> Inr (if b then x # ys else ys)))"

definition name_of :: "json \<Rightarrow> string option" where
  "name_of item = (case property ''name'' item of Inr (Some (JStr s)) \<Rightarrow> Some s | _ \<Rightarrow> None)"

definition compare_names :: "platform \<Rightarrow> json \<Rightarrow> json \<Rightarrow> int" where
  "compare_names P a b =
     (case (name_of a, name_of b) of
        (Some x, Some y) \<Rightarrow> localeCompare P x y
      | _ \<Rightarrow> 0)"

fun insert_sorted :: "platform \<Rightarrow> json \<Rightarrow> json list \<Rightarrow> json list" where
  "insert_sorted P x [] = [x]"
| "insert_sorted P x (y # ys) =
     (if compare_names P x y \<le> 0 then x # y # ys else y # insert_sorted P x ys)"

text \<open>
  \<^verbatim>\<open>items.sort((a, b) => a.name.localeCompare(b.name))\<close>: the sort is stable. With fewer
  than two items the comparator is never called; otherwise a name that is not a string
  is reported as the \<open>TypeError\<close> of calling \<^verbatim>\<open>localeCompare\<close> on it.
\<close>

definition sort_by_name :: "platform \<Rightarrow> json list \<Rightarrow> error + json list" where
  "sort_by_name P xs =
     (if length xs \<le> 1 then Inr xs
      else if list_all (\<lambda>item. name_of item \<noteq> None) xs
      then Inr (foldr (insert_sorted P) xs [])
      else Inl TypeError)"

definition daysThreshold :: "ListFoodItemsRequest \<Rightarrow> int" where
  "daysThreshold request =
     (case expiringSoonDays request of None \<Rightarrow> 7 | Some n \<Rightarrow> if n = 0 then 7 else n)"

text \<open>
  \<^verbatim>\<open>[...this.database.items]\<close>: the elements of an array, the characters of a string, a
  \<open>TypeError\<close> for anything that is not iterable.
\<close>

definition spread_items :: "json \<Rightarrow> error + json list" where
  "spread_items db =
     (case property ''items'' db of
        Inl e \<Rightarrow> Inl e
      | Inr (Some (JArr xs)) \<Rightarrow> Inr xs
      | Inr (Some (JStr s)) \<Rightarrow> Inr (map (\<lambda>c. JStr [c]) s)
      | Inr v \<Rightarrow> Inl TypeError)"

text \<open>
  \<open>now\<close> is the clock reading that \<^verbatim>\<open>thresholdDate\<close> starts from, and \<open>clock i\<close> the
  reading taken inside the expiry filter for the item at index \<open>i\<close> of the list the
  filter runs on.
\<close>

definition listFoodItems ::
  "platform \<Rightarrow> int \<Rightarrow> (nat \<Rightarrow> int) \<Rightarrow> ListFoodItemsRequest \<Rightarrow> service \<Rightarrow>
   (error + json list) \<times> service" where
  "listFoodItems P now clock request st =
     (if \<not> truthy (database st)
      then (Inl (DatabaseError ''Database not initialized'' None), st)
      else case spread_items (database st) of
        Inl e \<Rightarrow> (Inl e, st)
      | Inr items0 \<Rightarrow>
          (case (if truthy_str (category request)
                 then filterE (text_match P ''category'' (case category request of Some c \<Rightarrow> c | None \<Rightarrow> [])) items0
                 else Inr items0) of
             Inl e \<Rightarrow> (Inl e, st)
           | Inr items1 \<Rightarrow>
               (case (if truthy_str (location request)
                      then filterE (text_match P ''location'' (case location request of Some l \<Rightarrow> l | None \<Rightarrow> [])) items1
                      else Inr items1) of
                  Inl e \<Rightarrow> (Inl e, st)
                | Inr items2 \<Rightarrow>
                    (case (if expiringSoon request = Some True
                           then filter_at (\<lambda>i. expires_by P (addDays P now (daysThreshold request)) (clock i))
                                  0 items2
                           else Inr items2) of
                       Inl e \<Rightarrow> (Inl e, st)
                     | Inr items3 \<Rightarrow>
                         (case sort_by_name P items3 of
                            Inl e \<Rightarrow> (Inl e, st)
                          | Inr items4 \<Rightarrow> (Inr items4, st))))))"

subsection \<open>getFoodItemById and updateFoodItem\<close>

definition getFoodItemById :: "string \<Rightarrow> service \<Rightarrow> (error + json) \<times> service" where
  "getFoodItemById ident st =
     (if \<not> truthy (database st)
      then (Inl (DatabaseError ''Database not initialized'' None), st)
      else case items_of (database st) of
        None \<Rightarrow> (Inl TypeError, st)
      | Some xs \<Rightarrow>
          (case findIndex (id_is ident) xs of
             Inl e \<Rightarrow> (Inl e, st)
           | Inr None \<Rightarrow> (Inl (NotFoundError (''Food item not found with id: '' @ ident)), st)
           | Inr (Some i) \<Rightarrow> (Inr (xs ! i), st)))"

text \<open>
  The merged object of \<^verbatim>\<open>updateFoodItem\<close>:
  \<^verbatim>\<open>{...existingItem, ...updates, id: existingItem.id, addedDate: existingItem.addedDate,
    lastModified: new Date().toISOString()}\<close>
\<close>

definition merge_update :: "platform \<Rightarrow> int \<Rightarrow> json \<Rightarrow> (string \<times> json) list \<Rightarrow> json" where
  "merge_update P now existingItem updates =
     JObj (put ''lastModified'' (Some (JStr (toISOString P now)))
            (put ''addedDate'' (map_of (entries existingItem) ''addedDate'')
              (put ''id'' (map_of (entries existingItem) ''id'')
                (spread (entries existingItem) updates))))"

definition updateFoodItem ::
  "platform \<Rightarrow> int \<Rightarrow> string \<Rightarrow> (string \<times> json) list \<Rightarrow> service \<Rightarrow> (error + json) \<times> service" where
  "updateFoodItem P now ident updates st =
     (if \<not> truthy (database st)
      then (Inl (DatabaseError ''Database not initialized'' None), st)
      else case items_of (database st) of
        None \<Rightarrow> (Inl TypeError, st)
      | Some xs \<Rightarrow>
          (case findIndex (id_is ident) xs of
             Inl e \<Rightarrow> (Inl e, st)
           | Inr None \<Rightarrow> (Inl (NotFoundError (''Food item not found with id: '' @ ident)), st)
           | Inr (Some itemIndex) \<Rightarrow>
               (case FoodItemSchema_parse P (merge_update P now (xs ! itemIndex) updates) of
                  Inl issues \<Rightarrow> (Inl (ZodError issues), st)
                | Inr validatedItem \<Rightarrow>
                    (case saveDatabase P now
                            (st\<lparr>database := with_items (xs[itemIndex := validatedItem]) (database st)\<rparr>) of
                       (Inl e, st1) \<Rightarrow> (Inl e, st1)
                     | (Inr u, st1) \<Rightarrow> (Inr validatedItem, st1)))))"

subsection \<open>getStats and clearAllData\<close>

record stats =
  totalItems :: nat
  categories :: "json list"
  locations :: "json list"
  expiringCount :: nat
  lastModified :: "json option"
  version :: "json option"

fun mapE :: "(json \<Rightarrow> error + 'a) \<Rightarrow> json list \<Rightarrow> error + 'a list" where
  "mapE f [] = Inr []"
| "mapE f (x # xs) =
     (case f x of
        Inl e \<Rightarrow> Inl e
      | Inr y \<Rightarrow> (case mapE f xs of Inl e \<Rightarrow> Inl e | Inr ys \<Rightarrow> Inr (y # ys)))"

text \<open>
  Equality of two members of a \<^verbatim>\<open>Set\<close>: primitives by value, while two arrays or
  objects that were parsed apart are never the same reference.
\<close>

fun same_value :: "json \<Rightarrow> json \<Rightarrow> bool" where
  "same_value (JArr xs) y = False"
| "same_value (JObj kvs) y = False"
| "same_value (JArrWith xs ps) y = False"
| "same_value x y = (x = y)"

text \<open>\<^verbatim>\<open>[...new Set(values)]\<close>: first occurrences, in order.\<close>

definition distinct_values :: "json list \<Rightarrow> json list" where
  "distinct_values vs =
     foldl (\<lambda>acc v. if list_ex (\<lambda>w. same_value w v) acc then acc else acc @ [v]) [] vs"

text \<open>\<^verbatim>\<open>items.map(item => item[key]).filter(Boolean)\<close>\<close>

definition present_values :: "string \<Rightarrow> json list \<Rightarrow> error + json list" where
  "present_values key xs =
     (case mapE (property key) xs of
        Inl e \<Rightarrow> Inl e
      | Inr vs \<Rightarrow> Inr (filter truthy (List.map_filter (\<lambda>v. v) vs)))"

text \<open>\<^verbatim>\<open>this.database.lastModified\<close> and \<^verbatim>\<open>this.database.version\<close>, read after the items.\<close>

definition envelope_field :: "string \<Rightarrow> json \<Rightarrow> json option" where
  "envelope_field k db = (case property k db of Inl e \<Rightarrow> None | Inr v \<Rightarrow> v)"

definition getStats ::
  "platform \<Rightarrow> int \<Rightarrow> (nat \<Rightarrow> int) \<Rightarrow> service \<Rightarrow> (error + stats) \<times> service" where
  "getStats P now clock st =
     (if \<not> truthy (database st)
      then (Inl (DatabaseError ''Database not initialized'' None), st)
      else case items_of (database st) of
        None \<Rightarrow> (Inl TypeError, st)
      | Some xs \<Rightarrow>
          (case present_values ''category'' xs of
             Inl e \<Rightarrow> (Inl e, st)
           | Inr cs \<Rightarrow>
               (case present_values ''location'' xs of
                  Inl e \<Rightarrow> (Inl e, st)
                | Inr ls \<Rightarrow>
                    (case filter_at (\<lambda>i. expires_by P (addDays P now 7) (clock i)) 0 xs of
                       Inl e \<Rightarrow> (Inl e, st)
                     | Inr expiring \<Rightarrow>
                         (Inr \<lparr>totalItems = length xs,
                               categories = distinct_values cs,
                               locations = distinct_values ls,
                               expiringCount = length expiring,
                               lastModified = envelope_field ''lastModified'' (database st),
                               version = envelope_field ''version'' (database st)\<rparr>,
                          st)))))"

definition clearAllData :: "platform \<Rightarrow> int \<Rightarrow> service \<Rightarrow> (error + unit) \<times> service" where
  "clearAllData P now st =
     (if \<not> truthy (database st)
      then (Inl (DatabaseError ''Database not initialized'' None), st)
      else case assign ''items'' (JArr []) (database st) of
        Inl e \<Rightarrow> (Inl e, st)
      | Inr db \<Rightarrow> saveDatabase P now (st\<lparr>database := db\<rparr>))"

section \<open>A sample platform and sample data\<close>

text \<open>
  Concrete instances for evaluating the model: identifiers of 36 characters, a calendar
  of a few instants around the epoch, a comparison of names by character code (which
  agrees with the locale order on names of one letter case), the lower-casing of the
  ASCII letters (which is what \<^verbatim>\<open>toLowerCase\<close> does on ASCII text), and days of 24 hours
  (the calendar of a process running in UTC).
\<close>

definition calendar :: "(string \<times> int) list" where
  "calendar =
     [(''1970-01-01T00:00:00.000Z'', 0),
      (''1970-01-02T00:00:00.000Z'', 86400000),
      (''1970-01-08T00:00:00.000Z'', 604800000),
      (''1970-01-09T00:00:00.000Z'', 691200000)]"

fun compare_codes :: "string \<Rightarrow> string \<Rightarrow> int" where
  "compare_codes [] [] = 0"
| "compare_codes [] (y # ys) = - 1"
| "compare_codes (x # xs) [] = 1"
| "compare_codes (x # xs) (y # ys) =
     (if (of_char x :: nat) < of_char y then - 1
      else if (of_char y :: nat) < of_char x then 1
      else compare_codes xs ys)"

definition ascii_lower_char :: "char \<Rightarrow> char" where
  "ascii_lower_char c =
     (case map_of (zip ''ABCDEFGHIJKLMNOPQRSTUVWXYZ'' ''abcdefghijklmnopqrstuvwxyz'') c of
        Some l \<Rightarrow> l
      | None \<Rightarrow> c)"

definition ascii_lower :: "string \<Rightarrow> string" where
  "ascii_lower s = map ascii_lower_char s"

definition utc_addDays :: "int \<Rightarrow> int \<Rightarrow> int option" where
  "utc_addDays t n = Some (t + n * 86400000)"

definition sample_platform :: platform where
  "sample_platform =
     \<lparr>is_uuid = (\<lambda>s. length s = 36),
      is_datetime = (\<lambda>s. map_of calendar s \<noteq> None),
      new_Date = (\<lambda>v. case v of JStr s \<Rightarrow> map_of calendar s | _ \<Rightarrow> None),
      toISOString = (\<lambda>t. case map_of (map (\<lambda>(s, t). (t, s)) calendar) t of
                            Some s \<Rightarrow> s | None \<Rightarrow> ''1970-01-01T00:00:00.000Z''),
      localeCompare = compare_codes,
      toLowerCase = ascii_lower,
      addDays = utc_addDays\<rparr>"

definition healthy_disk :: "(path \<Rightarrow> content option) \<Rightarrow> disk" where
  "healthy_disk fs =
     \<lparr>files = fs, mkdir_fails = False, unreadable = (\<lambda>p. False), copy_fails = False,
      write_fails = False, rename_fails = False\<rparr>"

definition milk :: json where
  "milk =
     JObj [(''id'', JStr ''11111111-1111-4111-8111-111111111111''),
           (''name'', JStr ''Milk''),
           (''quantity'', JNum 1),
           (''unit'', JStr ''liter''),
           (''expirationDate'', JStr ''1970-01-08T00:00:00.000Z''),
           (''category'', JStr ''dairy''),
           (''addedDate'', JStr ''1970-01-01T00:00:00.000Z''),
           (''lastModified'', JStr ''1970-01-01T00:00:00.000Z'')]"

definition bread :: json where
  "bread =
     JObj [(''id'', JStr ''22222222-2222-4222-8222-222222222222''),
           (''name'', JStr ''Bread''),
           (''quantity'', JNum 2),
           (''unit'', JStr ''pieces''),
           (''expirationDate'', JStr ''1970-01-09T00:00:00.000Z''),
           (''addedDate'', JStr ''1970-01-01T00:00:00.000Z''),
           (''lastModified'', JStr ''1970-01-01T00:00:00.000Z'')]"

definition rice :: json where
  "rice =
     JObj [(''id'', JStr ''33333333-3333-4333-8333-333333333333''),
           (''name'', JStr ''Rice''),
           (''quantity'', JNum 1),
           (''unit'', JStr ''kg''),
           (''addedDate'', JStr ''1970-01-01T00:00:00.000Z''),
           (''lastModified'', JStr ''1970-01-01T00:00:00.000Z'')]"

definition envelope :: "json list \<Rightarrow> json" where
  "envelope xs =
     JObj [(''items'', JArr xs),
           (''lastModified'', JStr ''1970-01-01T00:00:00.000Z''),
           (''version'', JStr ''1.0.0'')]"

section \<open>Notions used in the statements\<close>

text \<open>What passing \<open>FoodItemSchema\<close> means, field by field (see \<open>FoodItemSchema_parse_ok_iff\<close>).\<close>

definition valid_fields :: "platform \<Rightarrow> (string \<times> json) list \<Rightarrow> bool" where
  "valid_fields P kvs \<longleftrightarrow>
     (\<exists>s. map_of kvs ''id'' = Some (JStr s) \<and> is_uuid P s) \<and>
     (\<exists>s. map_of kvs ''name'' = Some (JStr s) \<and> s \<noteq> []) \<and>
     (\<exists>q. map_of kvs ''quantity'' = Some (JNum q) \<and> isInteger q \<and> 0 \<le> q) \<and>
     (\<exists>s. map_of kvs ''unit'' = Some (JStr s) \<and> s \<noteq> []) \<and>
     (map_of kvs ''expirationDate'' = None \<or>
        (\<exists>s. map_of kvs ''expirationDate'' = Some (JStr s) \<and> is_datetime P s)) \<and>
     (map_of kvs ''category'' = None \<or> (\<exists>s. map_of kvs ''category'' = Some (JStr s))) \<and>
     (map_of kvs ''location'' = None \<or> (\<exists>s. map_of kvs ''location'' = Some (JStr s))) \<and>
     (map_of kvs ''notes'' = None \<or> (\<exists>s. map_of kvs ''notes'' = Some (JStr s))) \<and>
     (\<exists>s. map_of kvs ''addedDate'' = Some (JStr s) \<and> is_datetime P s) \<and>
     (\<exists>s. map_of kvs ''lastModified'' = Some (JStr s) \<and> is_datetime P s)"

text \<open>The database after \<^verbatim>\<open>saveDatabase\<close> has stamped its \<^verbatim>\<open>lastModified\<close>.\<close>

definition stamped :: "platform \<Rightarrow> int \<Rightarrow> json \<Rightarrow> json" where
  "stamped P now db =
     (case assign ''lastModified'' (JStr (toISOString P now)) db of
        Inr db' \<Rightarrow> db'
      | Inl e \<Rightarrow> db)"

text \<open>The test of the load-time filter: \<^verbatim>\<open>FoodItemSchema.parse(item)\<close> does not throw.\<close>

definition valid_item :: "platform \<Rightarrow> json \<Rightarrow> bool" where
  "valid_item P item = isOk (FoodItemSchema_parse P item)"

text \<open>
  The state of a loaded store: the database is an object whose \<^verbatim>\<open>items\<close> field is the
  array \<open>xs\<close>.
\<close>

definition holds_items :: "json \<Rightarrow> json list \<Rightarrow> bool" where
  "holds_items db xs =
     (case db of JObj kvs \<Rightarrow> map_of kvs ''items'' = Some (JArr xs) | _ \<Rightarrow> False)"

text \<open>
  A mutation that outlives a failed save: the collection in memory is \<open>ys\<close>, and the next
  save, at the instant \<open>later\<close> on a disk \<open>d\<close>, succeeds and leaves a main file whose
  items are \<open>ys\<close>.
\<close>

definition kept_for_next_save :: "platform \<Rightarrow> int \<Rightarrow> disk \<Rightarrow> service \<Rightarrow> json list \<Rightarrow> bool" where
  "kept_for_next_save P later d s ys \<longleftrightarrow>
     holds_items (database s) ys \<and>
     fst (saveDatabase P later (s\<lparr>storage := d\<rparr>)) = Inr () \<and>
     (case files (storage (snd (saveDatabase P later (s\<lparr>storage := d\<rparr>)))) DataPath of
        Some (Document db) \<Rightarrow> holds_items db ys
      | _ \<Rightarrow> False)"

text \<open>
  What the category and location filters ask of an item: nothing when the filter is
  absent or empty, otherwise that the field is a string containing the wanted text once
  both are lower-cased.
\<close>

definition text_wanted :: "platform \<Rightarrow> string \<Rightarrow> string option \<Rightarrow> json \<Rightarrow> bool" where
  "text_wanted P key wanted item =
     (case wanted of
        None \<Rightarrow> True
      | Some w \<Rightarrow>
          w = [] \<or>
          (case map_of (entries item) key of
             Some (JStr s) \<Rightarrow> str_includes (toLowerCase P s) (toLowerCase P w)
           | _ \<Rightarrow> False))"

text \<open>The two text filters of a request together.\<close>

definition text_filters :: "platform \<Rightarrow> ListFoodItemsRequest \<Rightarrow> json \<Rightarrow> bool" where
  "text_filters P request item \<longleftrightarrow>
     text_wanted P ''category'' (category request) item \<and>
     text_wanted P ''location'' (location request) item"

text \<open>
  The expiry window: the expiration date is present, it is a date, and it lies between
  the instant \<open>from\<close> and the instant \<open>limit\<close>, both ends included.
\<close>

definition in_window :: "platform \<Rightarrow> int \<Rightarrow> int \<Rightarrow> json \<Rightarrow> bool" where
  "in_window P from limit item =
     (case map_of (entries item) ''expirationDate'' of
        None \<Rightarrow> False
      | Some v \<Rightarrow>
          (case new_Date P v of
             None \<Rightarrow> False
           | Some t \<Rightarrow> from \<le> t \<and> t \<le> limit))"

subsection \<open>Sample disks and requests\<close>

definition corrupt_primary_disk :: disk where
  "corrupt_primary_disk =
     healthy_disk ((\<lambda>p. None)(DataPath := Some Malformed,
                                 BackupPath := Some (Document (envelope [milk]))))"

definition items_not_array_disk :: disk where
  "items_not_array_disk =
     healthy_disk ((\<lambda>p. None)(DataPath :=
        Some (Document (JObj [(''items'', JObj []), (''version'', JStr ''1.0.0'')]))))"

definition corrupt_only_disk :: disk where
  "corrupt_only_disk = healthy_disk ((\<lambda>p. None)(DataPath := Some Malformed))"

text \<open>No main file, and a backup that holds \<^verbatim>\<open>{}\<close>.\<close>

definition bare_backup_disk :: disk where
  "bare_backup_disk = healthy_disk ((\<lambda>p. None)(BackupPath := Some (Document (JObj []))))"

definition ghost :: json where
  "ghost = JObj [(''name'', JStr ''Ghost''), (''quantity'', JNum (- 1))]"

definition mixed_disk :: disk where
  "mixed_disk =
     healthy_disk ((\<lambda>p. None)(DataPath := Some (Document (envelope [milk, ghost, bread]))))"

definition expiring_request :: ListFoodItemsRequest where
  "expiring_request =
     \<lparr>category = None, location = None, expiringSoon = Some True, expiringSoonDays = None\<rparr>"

definition empty_disk :: disk where
  "empty_disk = healthy_disk (\<lambda>p. None)"

definition fresh_uuid :: string where
  "fresh_uuid = ''44444444-4444-4444-8444-444444444444''"

text \<open>The request \<^verbatim>\<open>{}\<close> of \<^verbatim>\<open>listFoodItems\<close>.\<close>

definition no_filters :: ListFoodItemsRequest where
  "no_filters = \<lparr>category = None, location = None, expiringSoon = None, expiringSoonDays = None\<rparr>"

definition eggs_request :: json where
  "eggs_request =
     JObj [(''name'', JStr ''Eggs''), (''quantity'', JNum 6), (''unit'', JStr ''pieces'')]"

text \<open>
  The sample platform in a time zone that moves its clocks forward by an hour within the
  coming days: a calendar day later is 23 hours later.
\<close>

definition spring_platform :: platform where
  "spring_platform = sample_platform\<lparr>addDays := (\<lambda>t n. Some (t + n * 86400000 - 3600000))\<rparr>"

text \<open>A clock that does not advance during the call.\<close>

definition frozen :: "int \<Rightarrow> nat \<Rightarrow> int" where
  "frozen t i = t"

section \<open>Evaluation rules\<close>

lemmas schema_defs =
  AddFoodItemRequestSchema_parse_def FoodItemSchema_parse_def z_object_parse_def
  field_issues_def strip_def AddFoodItemRequestSchema_def FoodItemSchema_def z_string_def
  z_number_def z_optional_def isInteger_def invalid_type_def List.map_filter_simps

section \<open>Objects, schemas and searches\<close>

lemma map_of_put: "map_of (put k v kvs) = (map_of kvs)(k := v)"
  by (cases v) (simp_all add: put_def update_conv' delete_conv')

lemma map_of_spread: "map_of (spread a b) = map_of a ++ map_of (rev b)"
proof -
  have "map_of (foldl (\<lambda>acc (k, v). AList.update k v acc) a b) = map_of a ++ map_of (rev b)" for a
  proof (induction b arbitrary: a)
    case Nil
    then show ?case by simp
  next
    case (Cons kv b)
    obtain k v where kv: "kv = (k, v)" by (cases kv)
    show ?case
      by (simp add: kv Cons.IH update_conv' map_add_def fun_eq_iff split: option.splits)
  qed
  then show ?thesis by (simp add: spread_def)
qed

lemma map_of_strip:
  "map_of (strip sh kvs) k = (if k \<in> fst ` set sh then map_of kvs k else None)"
proof (induction sh)
  case Nil
  then show ?case by (simp add: strip_def List.map_filter_simps)
next
  case (Cons a sh)
  obtain k' f where a: "a = (k', f)" by (cases a)
  from Cons show ?case
    by (cases "map_of kvs k'") (auto simp: a strip_def List.map_filter_simps)
qed

lemma field_issues_Nil_iff:
  "field_issues sh kvs = [] \<longleftrightarrow> (\<forall>(k, validator) \<in> set sh. validator (map_of kvs k) = [])"
  by (auto simp: field_issues_def)

lemma z_object_parse_Inr:
  "z_object_parse sh v = Inr out \<longleftrightarrow>
     (\<exists>kvs. v = JObj kvs \<and> field_issues sh kvs = [] \<and> out = JObj (strip sh kvs))"
  by (cases v) (auto simp: z_object_parse_def)

lemma z_string_Nil_iff:
  "z_string checks v = [] \<longleftrightarrow> (\<exists>s. v = Some (JStr s) \<and> (\<forall>(ok, msg) \<in> set checks. ok s))"
  by (auto simp: z_string_def filter_empty_conv split: option.splits json.splits)

lemma z_number_Nil_iff:
  "z_number checks v = [] \<longleftrightarrow> (\<exists>q. v = Some (JNum q) \<and> (\<forall>(ok, msg) \<in> set checks. ok q))"
  by (auto simp: z_number_def filter_empty_conv split: option.splits json.splits)

lemma z_optional_Nil_iff: "z_optional inner v = [] \<longleftrightarrow> v = None \<or> inner v = []"
  by (auto simp: z_optional_def split: option.splits)

lemma FoodItem_issues_Nil_iff:
  "field_issues (FoodItemSchema P) kvs = [] \<longleftrightarrow> valid_fields P kvs"
  unfolding field_issues_Nil_iff FoodItemSchema_def valid_fields_def
  by (simp add: z_string_Nil_iff z_number_Nil_iff z_optional_Nil_iff Suc_le_eq)

lemma FoodItemSchema_parse_ok_iff:
  "isOk (FoodItemSchema_parse P item) \<longleftrightarrow> (\<exists>kvs. item = JObj kvs \<and> valid_fields P kvs)"
  by (cases item)
     (auto simp: isOk_def FoodItemSchema_parse_def z_object_parse_def FoodItem_issues_Nil_iff)

lemma backup_step_flags [simp]:
  "write_fails (backup_step d) = write_fails d"
  "rename_fails (backup_step d) = rename_fails d"
  "mkdir_fails (backup_step d) = mkdir_fails d"
  "copy_fails (backup_step d) = copy_fails d"
  "unreadable (backup_step d) = unreadable d"
  by (auto simp: backup_step_def fs_access_def fs_copyFile_def split: option.splits)

lemma backup_step_files:
  "files (backup_step d) =
     (if files d DataPath \<noteq> None \<and> \<not> copy_fails d \<and> \<not> unreadable d DataPath
      then (files d)(BackupPath := files d DataPath) else files d)"
  by (auto simp: backup_step_def fs_access_def fs_copyFile_def split: option.splits)

lemma items_of_cases:
  assumes "items_of db = Some xs"
  obtains kvs where "db = JObj kvs" "map_of kvs ''items'' = Some (JArr xs)"
  | ys ps where "db = JArrWith ys ps" "map_of ps ''items'' = Some (JArr xs)"
  using assms by (cases db) (auto simp: items_of_def split: option.splits json.splits)

lemma items_of_JObj:
  "items_of (JObj kvs) = (case map_of kvs ''items'' of Some (JArr xs) \<Rightarrow> Some xs | _ \<Rightarrow> None)"
  by (simp add: items_of_def split: option.splits json.splits)

lemma holds_items_iff: "holds_items db xs \<longleftrightarrow> (\<exists>kvs. db = JObj kvs \<and> map_of kvs ''items'' = Some (JArr xs))"
  by (cases db) (auto simp: holds_items_def)

lemma holds_items_items_of: "holds_items db xs \<Longrightarrow> items_of db = Some xs"
  by (auto simp: holds_items_iff items_of_JObj)

lemma items_of_truthy: "items_of db = Some xs \<Longrightarrow> truthy db"
  by (erule items_of_cases) auto

lemma items_of_stamped [simp]: "items_of (stamped P now db) = items_of db"
  by (cases db) (auto simp: stamped_def items_of_def update_conv')

lemma items_of_with_items [simp]:
  "items_of db = Some xs \<Longrightarrow> items_of (with_items ys db) = Some ys"
  by (erule items_of_cases) (auto simp: with_items_def items_of_def update_conv')

lemma holds_items_stamped [simp]: "holds_items (stamped P now db) xs = holds_items db xs"
  by (cases db) (auto simp: stamped_def holds_items_def update_conv')

lemma holds_items_with_items [simp]:
  "holds_items db xs \<Longrightarrow> holds_items (with_items ys db) ys"
  by (auto simp: holds_items_iff with_items_def update_conv')

lemma stringify_holds_items [simp]: "holds_items (JSON_stringify db) xs = holds_items db xs"
  by (cases db) (auto simp: holds_items_def)

lemma assign_loaded:
  "items_of db = Some xs \<Longrightarrow> assign ''lastModified'' v db = Inr (case assign ''lastModified'' v db of Inr db' \<Rightarrow> db' | Inl e \<Rightarrow> db)"
  by (erule items_of_cases) auto

lemma items_length_loaded: "items_of db = Some xs \<Longrightarrow> items_length db = Inr ()"
  by (erule items_of_cases) (auto simp: items_length_def)

lemma saveDatabase_loaded:
  assumes "items_of (database st) = Some xs"
  shows "saveDatabase P now st =
     (if write_fails (storage st)
      then (Inl (DatabaseError ''Failed to save database'' (Some SystemError)),
            \<lparr>database = stamped P now (database st), storage = backup_step (storage st)\<rparr>)
      else if rename_fails (storage st)
      then (Inl (DatabaseError ''Failed to save database'' (Some SystemError)),
            \<lparr>database = stamped P now (database st),
             storage = (backup_step (storage st))
               \<lparr>files := (files (backup_step (storage st)))
                    (TempPath := Some (Document (JSON_stringify (stamped P now (database st)))))\<rparr>\<rparr>)
      else (Inr (),
            \<lparr>database = stamped P now (database st),
             storage = (backup_step (storage st))
               \<lparr>files := (files (backup_step (storage st)))
                    (TempPath := None,
                     DataPath := Some (Document (JSON_stringify (stamped P now (database st)))))\<rparr>\<rparr>))"
proof -
  have il: "items_length (stamped P now (database st)) = Inr ()"
    using assms by (intro items_length_loaded[where xs = xs]) simp
  have asg: "assign ''lastModified'' (JStr (toISOString P now)) (database st)
        = Inr (stamped P now (database st))"
    using assign_loaded[OF assms] by (simp add: stamped_def)
  show ?thesis
    using items_of_truthy[OF assms]
    by (simp add: saveDatabase_def Let_def asg il fs_writeFile_def fs_rename_def)
qed

lemma findIndex_Some:
  "findIndex p xs = Inr (Some i) \<Longrightarrow>
     i < length xs \<and> p (xs ! i) = Inr True \<and> (\<forall>j<i. p (xs ! j) = Inr False)"
proof (induction xs arbitrary: i)
  case Nil
  then show ?case by simp
next
  case (Cons x xs)
  show ?case
  proof (cases "p x")
    case (Inl e)
    with Cons.prems show ?thesis by simp
  next
    case (Inr b)
    show ?thesis
    proof (cases b)
      case True
      with Inr Cons.prems show ?thesis by simp
    next
      case False
      with Inr Cons.prems obtain i' where i': "findIndex p xs = Inr (Some i')" "i = Suc i'"
        by (auto split: sum.splits option.splits)
      from Cons.IH[OF i'(1)] Inr False i'(2) show ?thesis
        by (auto simp: less_Suc_eq_0_disj)
    qed
  qed
qed

lemma findIndex_None:
  "findIndex p xs = Inr None \<Longrightarrow> \<forall>x \<in> set xs. p x = Inr False"
  by (induction xs) (auto split: sum.splits option.splits bool.splits)

lemma findIndex_total:
  "\<forall>x \<in> set xs. \<exists>b. p x = Inr b \<Longrightarrow> \<exists>r. findIndex p xs = Inr r"
  by (induction xs) (auto split: sum.splits option.splits bool.splits)

lemma findIndex_first:
  "i < length xs \<Longrightarrow> p (xs ! i) = Inr True \<Longrightarrow> \<forall>j<i. p (xs ! j) = Inr False \<Longrightarrow>
   findIndex p xs = Inr (Some i)"
proof (induction xs arbitrary: i)
  case Nil
  then show ?case by simp
next
  case (Cons x xs)
  show ?case
  proof (cases i)
    case 0
    with Cons.prems show ?thesis by simp
  next
    case (Suc i')
    with Cons.prems have "p x = Inr False" by auto
    moreover have "findIndex p xs = Inr (Some i')"
      using Cons.prems Suc by (intro Cons.IH) auto
    ultimately show ?thesis by (simp add: Suc)
  qed
qed

lemma filterE_total:
  "\<forall>x \<in> set xs. p x = Inr (q x) \<Longrightarrow> filterE p xs = Inr (filter q xs)"
  by (induction xs) auto

lemma map_of_rev_strip:
  "map_of (rev (strip sh kvs)) k = (if k \<in> fst ` set sh then map_of kvs k else None)"
proof (induction sh)
  case Nil
  then show ?case by (simp add: strip_def List.map_filter_simps)
next
  case (Cons a sh)
  obtain k' f where a: "a = (k', f)" by (cases a)
  have step: "strip (a # sh) kvs =
      (case map_of kvs k' of None \<Rightarrow> strip sh kvs | Some v \<Rightarrow> (k', v) # strip sh kvs)"
    by (simp add: a strip_def List.map_filter_simps split: option.splits)
  from Cons show ?case
    unfolding step by (cases "map_of kvs k'") (auto simp: a map_of_append map_add_def split: option.splits)
qed

lemma AddRequest_issues_Nil_iff:
  "field_issues (AddFoodItemRequestSchema P) kvs = [] \<longleftrightarrow>
     (\<exists>s. map_of kvs ''name'' = Some (JStr s) \<and> s \<noteq> []) \<and>
     (\<exists>q. map_of kvs ''quantity'' = Some (JNum q) \<and> isInteger q \<and> 1 \<le> q) \<and>
     (\<exists>s. map_of kvs ''unit'' = Some (JStr s) \<and> s \<noteq> []) \<and>
     (map_of kvs ''expirationDate'' = None \<or>
        (\<exists>s. map_of kvs ''expirationDate'' = Some (JStr s) \<and> is_datetime P s)) \<and>
     (map_of kvs ''category'' = None \<or> (\<exists>s. map_of kvs ''category'' = Some (JStr s))) \<and>
     (map_of kvs ''location'' = None \<or> (\<exists>s. map_of kvs ''location'' = Some (JStr s))) \<and>
     (map_of kvs ''notes'' = None \<or> (\<exists>s. map_of kvs ''notes'' = Some (JStr s)))"
  unfolding field_issues_Nil_iff AddFoodItemRequestSchema_def
  by (simp add: z_string_Nil_iff z_number_Nil_iff z_optional_Nil_iff Suc_le_eq)

lemma map_of_new_item:
  "map_of (entries (new_item P now uuid (JObj (strip (AddFoodItemRequestSchema P) kvs)))) k =
     (if k = ''addedDate'' \<or> k = ''lastModified'' then Some (JStr (toISOString P now))
      else if k \<in> fst ` set (AddFoodItemRequestSchema P) \<and> map_of kvs k \<noteq> None then map_of kvs k
      else if k = ''id'' then Some (JStr uuid) else None)"
  by (auto simp: new_item_def entries_def map_of_spread map_add_def map_of_rev_strip
           split: option.splits)

lemma new_item_valid:
  assumes "AddFoodItemRequestSchema_parse P request = Inr validatedRequest"
    and "is_uuid P uuid" and "is_datetime P (toISOString P now)"
  shows "isOk (FoodItemSchema_parse P (new_item P now uuid validatedRequest))"
proof -
  from assms(1) obtain kvs where kvs: "request = JObj kvs"
      "field_issues (AddFoodItemRequestSchema P) kvs = []"
      "validatedRequest = JObj (strip (AddFoodItemRequestSchema P) kvs)"
    by (auto simp: AddFoodItemRequestSchema_parse_def z_object_parse_Inr)
  obtain ys where ys: "new_item P now uuid validatedRequest = JObj ys"
    by (simp add: new_item_def)
  have m: "map_of ys k =
     (if k = ''addedDate'' \<or> k = ''lastModified'' then Some (JStr (toISOString P now))
      else if k \<in> fst ` set (AddFoodItemRequestSchema P) \<and> map_of kvs k \<noteq> None then map_of kvs k
      else if k = ''id'' then Some (JStr uuid) else None)" for k
    using map_of_new_item[of P now uuid kvs k] ys kvs(3) by (simp add: entries_def)
  have keys: "fst ` set (AddFoodItemRequestSchema P) =
     {''name'', ''quantity'', ''unit'', ''expirationDate'', ''category'', ''location'', ''notes''}"
    by (auto simp: AddFoodItemRequestSchema_def)
  have same: "map_of ys k = map_of kvs k"
    if "k \<in> {''name'', ''quantity'', ''unit'', ''expirationDate'', ''category'', ''location'', ''notes''}"
    for k
    using that m[of k] keys by (cases "map_of kvs k") auto
  have ident: "map_of ys ''id'' = Some (JStr uuid)"
    using m[of "''id''"] by (simp add: keys)
  have d1: "map_of ys ''addedDate'' = Some (JStr (toISOString P now))"
    using m[of "''addedDate''"] by simp
  have d2: "map_of ys ''lastModified'' = Some (JStr (toISOString P now))"
    using m[of "''lastModified''"] by simp
  have q: "\<exists>q. map_of kvs ''quantity'' = Some (JNum q) \<and> isInteger q \<and> 0 \<le> q"
    using kvs(2) unfolding AddRequest_issues_Nil_iff by force
  have "valid_fields P ys"
    using kvs(2) assms(2,3) q unfolding AddRequest_issues_Nil_iff valid_fields_def
    by (simp add: same ident d1 d2)
  then show ?thesis by (auto simp: FoodItemSchema_parse_ok_iff ys)
qed

lemma map_of_merge_update:
  "map_of (entries (merge_update P now existing updates)) k =
     (if k = ''lastModified'' then Some (JStr (toISOString P now))
      else if k = ''addedDate'' then map_of (entries existing) ''addedDate''
      else if k = ''id'' then map_of (entries existing) ''id''
      else (map_of (entries existing) ++ map_of (rev updates)) k)"
  by (simp add: merge_update_def map_of_put map_of_spread entries_def[of "JObj kvs" for kvs])

lemma id_is_TrueD:
  "id_is ident item = Inr True \<Longrightarrow>
   map_of (entries item) ''id'' = Some (JStr ident) \<and>
   (\<forall>k. property k item = Inr (map_of (entries item) k))"
  by (cases item) (auto simp: id_is_def entries_def)

section \<open>Loading\<close>

lemma load_validate_loaded:
  assumes "items_of (database st) = Some ys"
  obtains db1 db2 where
    "items_of db1 = Some (filter (valid_item P) ys)"
    "items_of db2 = Some (filter (valid_item P) ys)"
    "load_validate P now st =
       (if truthy_opt (envelope_field ''version'' (database st))
        then (Inr (), st\<lparr>database := db1\<rparr>)
        else saveDatabase P now (st\<lparr>database := db2\<rparr>))"
  using assms
proof (cases rule: items_of_cases)
  case (1 kvs)
  let ?kept = "JArr (filter (valid_item P) ys)"
  show ?thesis
  proof (rule that[of "JObj (AList.update ''items'' ?kept kvs)"
        "JObj (AList.update ''version'' (JStr ''1.0.0'') (AList.update ''items'' ?kept kvs))"])
    show "load_validate P now st =
       (if truthy_opt (envelope_field ''version'' (database st))
        then (Inr (), st\<lparr>database := JObj (AList.update ''items'' ?kept kvs)\<rparr>)
        else saveDatabase P now (st\<lparr>database :=
               JObj (AList.update ''version'' (JStr ''1.0.0'') (AList.update ''items'' ?kept kvs))\<rparr>))"
      using 1
      by (simp add: load_validate_def items_of_JObj update_conv' valid_item_def[abs_def]
            envelope_field_def)
  qed (simp_all add: items_of_JObj update_conv')
next
  case (2 zs ps)
  let ?kept = "JArr (filter (valid_item P) ys)"
  show ?thesis
  proof (rule that[of "JArrWith zs (AList.update ''items'' ?kept ps)"
        "JArrWith zs (AList.update ''version'' (JStr ''1.0.0'') (AList.update ''items'' ?kept ps))"])
    show "load_validate P now st =
       (if truthy_opt (envelope_field ''version'' (database st))
        then (Inr (), st\<lparr>database := JArrWith zs (AList.update ''items'' ?kept ps)\<rparr>)
        else saveDatabase P now (st\<lparr>database :=
               JArrWith zs (AList.update ''version'' (JStr ''1.0.0'') (AList.update ''items'' ?kept ps))\<rparr>))"
      using 2
      by (simp add: load_validate_def items_of_def update_conv' valid_item_def[abs_def]
            envelope_field_def)
  qed (simp_all add: items_of_def update_conv')
qed

lemma load_validate_items:
  assumes "items_of (database st) = Some ys"
  shows "items_of (database (snd (load_validate P now st))) = Some (filter (valid_item P) ys)"
proof -
  from assms obtain db1 db2 where
    d: "items_of db1 = Some (filter (valid_item P) ys)"
       "items_of db2 = Some (filter (valid_item P) ys)"
       "load_validate P now st =
         (if truthy_opt (envelope_field ''version'' (database st))
          then (Inr (), st\<lparr>database := db1\<rparr>)
          else saveDatabase P now (st\<lparr>database := db2\<rparr>))"
    by (rule load_validate_loaded)
  have i2: "items_of (database (st\<lparr>database := db2\<rparr>)) = Some (filter (valid_item P) ys)"
    using d(2) by simp
  show ?thesis
    using d(1) by (simp add: d(3) saveDatabase_loaded[OF i2] d(2))
qed

lemma load_validate_result:
  assumes "items_of (database st) = Some ys"
  shows "fst (load_validate P now st) =
     (if \<not> truthy_opt (envelope_field ''version'' (database st)) \<and>
         (write_fails (storage st) \<or> rename_fails (storage st))
      then Inl (DatabaseError ''Failed to save database'' (Some SystemError))
      else Inr ())"
proof -
  from assms obtain db1 db2 where
    d: "items_of db1 = Some (filter (valid_item P) ys)"
       "items_of db2 = Some (filter (valid_item P) ys)"
       "load_validate P now st =
         (if truthy_opt (envelope_field ''version'' (database st))
          then (Inr (), st\<lparr>database := db1\<rparr>)
          else saveDatabase P now (st\<lparr>database := db2\<rparr>))"
    by (rule load_validate_loaded)
  have i2: "items_of (database (st\<lparr>database := db2\<rparr>)) = Some (filter (valid_item P) ys)"
    using d(2) by simp
  show ?thesis
    by (simp add: d(3) saveDatabase_loaded[OF i2])
qed

lemma load_validate_fails:
  assumes "items_of (database st) = None"
  shows "load_validate P now st = (Inl (PlainError ''Invalid database structure''), st)"
  using assms by (simp add: load_validate_def)

lemma loadDatabase_split:
  "loadDatabase P now st =
     (case fst (load_sources P now st) of
        Inl e \<Rightarrow> (Inl (DatabaseError ''Failed to load database'' (Some e)), snd (load_sources P now st))
      | Inr u \<Rightarrow>
          (case fst (load_validate P now (snd (load_sources P now st))) of
             Inl e \<Rightarrow> (Inl (DatabaseError ''Failed to load database'' (Some e)),
                         snd (load_validate P now (snd (load_sources P now st))))
           | Inr u' \<Rightarrow> (Inr (), snd (load_validate P now (snd (load_sources P now st))))))"
proof -
  obtain r1 s1 where a: "load_sources P now st = (r1, s1)"
    by (cases "load_sources P now st")
  obtain r2 s2 where b: "load_validate P now s1 = (r2, s2)"
    by (cases "load_validate P now s1")
  show ?thesis
    by (simp add: loadDatabase_def a b split: sum.splits)
qed

lemma read_json_Inl_iff:
  "(\<exists>e. read_json p d = Inl e) \<longleftrightarrow>
     unreadable d p \<or> files d p = None \<or> files d p = Some Malformed"
  by (auto simp: read_json_def fs_readFile_def JSON_parse_def split: option.splits content.splits)

lemma createEmptyDatabase_stamped:
  "stamped P now (createEmptyDatabase P now) = createEmptyDatabase P now"
  by (simp add: stamped_def createEmptyDatabase_def)

lemma createEmptyDatabase_items: "items_of (createEmptyDatabase P now) = Some []"
  by (simp add: createEmptyDatabase_def items_of_JObj)

lemma createEmptyDatabase_stringify:
  "JSON_stringify (createEmptyDatabase P now) = createEmptyDatabase P now"
  by (simp add: createEmptyDatabase_def)

lemma valid_itemD:
  assumes "valid_item P item"
  obtains kvs where "item = JObj kvs" "valid_fields P kvs"
  using assms by (auto simp: valid_item_def FoodItemSchema_parse_ok_iff)

lemma valid_item_name:
  "valid_item P item \<Longrightarrow> \<exists>s. name_of item = Some s"
  by (erule valid_itemD) (auto simp: valid_fields_def name_of_def)

lemma saveDatabase_flags:
  "write_fails (storage (snd (saveDatabase P now st))) = write_fails (storage st)"
  "rename_fails (storage (snd (saveDatabase P now st))) = rename_fails (storage st)"
  by (auto simp: saveDatabase_def Let_def fs_writeFile_def fs_rename_def
           split: sum.splits option.splits)

lemma load_sources_flags:
  "write_fails (storage (snd (load_sources P now st))) = write_fails (storage st)"
  "rename_fails (storage (snd (load_sources P now st))) = rename_fails (storage st)"
proof -
  have keep: "write_fails (storage s') = write_fails (storage s) \<and>
              rename_fails (storage s') = rename_fails (storage s)"
    if "saveDatabase P now s = (r, s')" for s r s'
    using saveDatabase_flags[of P now s] that by simp
  show "write_fails (storage (snd (load_sources P now st))) = write_fails (storage st)"
    by (auto simp: load_sources_def saveDatabase_flags split: sum.splits prod.splits dest!: keep)
  show "rename_fails (storage (snd (load_sources P now st))) = rename_fails (storage st)"
    by (auto simp: load_sources_def saveDatabase_flags split: sum.splits prod.splits dest!: keep)
qed

lemma valid_milk: "valid_item sample_platform milk"
  by (simp add: valid_item_def isOk_def schema_defs milk_def sample_platform_def calendar_def)

lemma valid_bread: "valid_item sample_platform bread"
  by (simp add: valid_item_def isOk_def schema_defs bread_def sample_platform_def calendar_def)

lemma valid_rice: "valid_item sample_platform rice"
  by (simp add: valid_item_def isOk_def schema_defs rice_def sample_platform_def calendar_def)

lemma invalid_ghost: "\<not> valid_item sample_platform ghost"
  by (simp add: valid_item_def isOk_def schema_defs ghost_def sample_platform_def calendar_def)

section \<open>Saving after a mutation\<close>

lemma failed_save_keeps:
  assumes "holds_items (database s) ys"
    and "write_fails (storage s) \<or> rename_fails (storage s)"
    and "\<not> write_fails d" and "\<not> rename_fails d"
  shows "fst (saveDatabase P now s) =
           Inl (DatabaseError ''Failed to save database'' (Some SystemError)) \<and>
         kept_for_next_save P later d (snd (saveDatabase P now s)) ys"
proof -
  have i1: "items_of (database s) = Some ys"
    using assms(1) by (rule holds_items_items_of)
  have r: "fst (saveDatabase P now s) =
           Inl (DatabaseError ''Failed to save database'' (Some SystemError))"
    and db: "database (snd (saveDatabase P now s)) = stamped P now (database s)"
    using assms(2) by (auto simp: saveDatabase_loaded[OF i1])
  let ?s2 = "snd (saveDatabase P now s)\<lparr>storage := d\<rparr>"
  have h2: "holds_items (database ?s2) ys"
    using assms(1) by (simp add: db)
  have i2: "items_of (database ?s2) = Some ys"
    using h2 by (rule holds_items_items_of)
  have ok: "fst (saveDatabase P later ?s2) = Inr ()"
    using assms(3,4) by (simp add: saveDatabase_loaded[OF i2])
  have written: "files (storage (snd (saveDatabase P later ?s2))) DataPath =
      Some (Document (JSON_stringify (stamped P later (database ?s2))))"
    using assms(3,4) by (simp add: saveDatabase_loaded[OF i2])
  have "holds_items (database (snd (saveDatabase P now s))) ys"
    using assms(1) by (simp add: db)
  then show ?thesis
    using r ok h2 by (simp add: kept_for_next_save_def written)
qed

section \<open>Filtering and sorting\<close>

lemma text_match_valid:
  assumes "valid_item P item" and "key = ''category'' \<or> key = ''location''" and "w \<noteq> []"
  shows "text_match P key w item = Inr (text_wanted P key (Some w) item)"
proof -
  from assms(1) obtain kvs where kvs: "item = JObj kvs" "valid_fields P kvs"
    by (rule valid_itemD)
  then have "map_of kvs key = None \<or> (\<exists>s. map_of kvs key = Some (JStr s))"
    using assms(2) by (auto simp: valid_fields_def)
  then show ?thesis
    using assms(3) by (auto simp: text_match_def text_wanted_def kvs(1) entries_def)
qed

lemma expires_by_valid:
  assumes "valid_item P item" and "\<not> is_datetime P []"
  shows "expires_by P (Some limit) reading item = Inr (in_window P reading limit item)"
proof -
  from assms(1) obtain kvs where kvs: "item = JObj kvs" "valid_fields P kvs"
    by (rule valid_itemD)
  then consider "map_of kvs ''expirationDate'' = None"
    | s where "map_of kvs ''expirationDate'' = Some (JStr s)" "is_datetime P s"
    by (auto simp: valid_fields_def)
  then show ?thesis
  proof cases
    case 1
    then show ?thesis
      by (simp add: expires_by_def in_window_def kvs(1) entries_def)
  next
    case 2
    with assms(2) have "s \<noteq> []" by auto
    with 2 show ?thesis
      by (auto simp: expires_by_def in_window_def kvs(1) entries_def split: option.splits)
  qed
qed

lemma filter_at_total:
  "\<forall>i. \<forall>x \<in> set xs. p i x = Inr (q i x) \<Longrightarrow>
   filter_at p k xs = Inr (map snd (filter (\<lambda>(i, x). q i x) (enumerate k xs)))"
  by (induction xs arbitrary: k) auto

lemma map_snd_filter_enumerate:
  "map snd (filter (\<lambda>(i, x). q x) (enumerate k xs)) = filter q xs"
  by (induction xs arbitrary: k) auto

lemma kept_subset: "set (map snd (filter q (enumerate k zs))) \<subseteq> set zs"
  by (induction zs arbitrary: k) auto

lemma set_filter_enumerate:
  "set (map snd (filter (\<lambda>(i, x). q i x) (enumerate 0 xs))) =
     {x. \<exists>i < length xs. xs ! i = x \<and> q i x}"
  by (auto simp: in_set_enumerate_eq image_iff)

lemma mset_insert_sorted: "mset (insert_sorted P x ys) = add_mset x (mset ys)"
  by (induction ys) auto

lemma mset_foldr_insert_sorted: "mset (foldr (insert_sorted P) xs []) = mset xs"
  by (induction xs) (auto simp: mset_insert_sorted)

lemma sort_by_name_valid:
  assumes "list_all (valid_item P) xs"
  shows "\<exists>ys. sort_by_name P xs = Inr ys \<and> mset ys = mset xs"
proof -
  have "list_all (\<lambda>item. name_of item \<noteq> None) xs"
    using assms valid_item_name by (fastforce simp: list_all_iff)
  then show ?thesis
    by (auto simp: sort_by_name_def mset_foldr_insert_sorted)
qed

lemma daysThreshold_cases:
  "expiringSoonDays request = None \<and> d = 7 \<or> expiringSoonDays request = Some d \<and> d \<noteq> 0 \<Longrightarrow>
   daysThreshold request = d"
  by (auto simp: daysThreshold_def)

lemma text_filter_step:
  assumes "list_all (valid_item P) xs" and "key = ''category'' \<or> key = ''location''"
  shows "(if truthy_str wanted
          then filterE (text_match P key (case wanted of Some c \<Rightarrow> c | None \<Rightarrow> [])) xs
          else Inr xs) = Inr (filter (text_wanted P key wanted) xs)"
proof (cases "truthy_str wanted")
  case True
  then obtain w where w: "wanted = Some w" "w \<noteq> []"
    by (auto simp: truthy_str_def split: option.splits)
  have "\<forall>x \<in> set xs. text_match P key w x = Inr (text_wanted P key (Some w) x)"
    using assms w(2) by (auto simp: list_all_iff text_match_valid)
  then show ?thesis
    using True w by (simp add: filterE_total)
next
  case False
  then have "text_wanted P key wanted = (\<lambda>item. True)"
    by (auto simp: truthy_str_def text_wanted_def fun_eq_iff split: option.splits)
  with False show ?thesis by simp
qed

lemma in_window_mono:
  "in_window P from limit item \<Longrightarrow> from' \<le> from \<Longrightarrow> in_window P from' limit item"
  by (auto simp: in_window_def split: option.splits)

section \<open>Validation failures in addFoodItem\<close>

text \<open>
  C1. The claim: an AddRequest that violates the validation rules makes \<^verbatim>\<open>addFoodItem\<close>
  fail with a validation error listing every violated constraint. The code at the request
  \<^verbatim>\<open>{name: "X", quantity: 0, unit: "u"}\<close>: zod throws a \<open>ZodError\<close>, which is not an
  instance of \<open>ValidationError\<close>, so the \<^verbatim>\<open>catch\<close> block wraps it and the caller receives
  a \<open>DatabaseError\<close> with the message "Failed to add food item"; the list of issues is
  only reachable as its \<^verbatim>\<open>originalError\<close>. This holds on every platform, at every
  instant and in every state of the service.
\<close>

theorem addFoodItem_invalid_request_is_DatabaseError:
  "addFoodItem P now uuid
     (JObj [(''name'', JStr ''X''), (''quantity'', JNum 0), (''unit'', JStr ''u'')]) st
   = (Inl (DatabaseError ''Failed to add food item''
            (Some (ZodError [Issue [''quantity''] ''Quantity must be positive'']))), st)"
  by (simp add: addFoodItem_def add_catch_def schema_defs)

text \<open>
  C8. For every AddRequest that fails validation, \<^verbatim>\<open>addFoodItem\<close> leaves the state of the
  service as it was: the in-memory collection is the same and the disk is the same, so
  nothing was written.
\<close>

theorem addFoodItem_rejected_leaves_state:
  "AddFoodItemRequestSchema_parse P request = Inl issues \<Longrightarrow>
   snd (addFoodItem P now uuid request st) = st"
  by (simp add: addFoodItem_def)

theorem addFoodItem_rejected_leaves_state_witness:
  "AddFoodItemRequestSchema_parse sample_platform
     (JObj [(''name'', JStr ''X''), (''quantity'', JNum 0), (''unit'', JStr ''u'')])
   = Inl [Issue [''quantity''] ''Quantity must be positive''] \<and>
   snd (addFoodItem sample_platform 0 ''44444444-4444-4444-8444-444444444444''
          (JObj [(''name'', JStr ''X''), (''quantity'', JNum 0), (''unit'', JStr ''u'')])
          \<lparr>database = envelope [milk], storage = healthy_disk (\<lambda>p. None)\<rparr>)
   = \<lparr>database = envelope [milk], storage = healthy_disk (\<lambda>p. None)\<rparr>"
proof -
  have h: "AddFoodItemRequestSchema_parse sample_platform
             (JObj [(''name'', JStr ''X''), (''quantity'', JNum 0), (''unit'', JStr ''u'')])
           = Inl [Issue [''quantity''] ''Quantity must be positive'']"
    by (simp add: schema_defs)
  show ?thesis
    using h addFoodItem_rejected_leaves_state [OF h] by simp
qed

section \<open>Operations on a failing disk and before initialize\<close>

text \<open>
  C9. Take a loaded store (the database is an object whose \<^verbatim>\<open>items\<close> is the array
  \<open>xs\<close>) on a disk that rejects the write of the temporary file or the rename. Each of
  the four mutating operations then surfaces a \<open>DatabaseError\<close> to its caller while the
  in-memory collection holds the mutation, which is not rolled back, and the next save on
  a disk \<open>d\<close> that accepts writes succeeds and leaves a main file with the mutated
  collection:
  \<^item> \<^verbatim>\<open>addFoodItem\<close>, after both validations have succeeded, leaves the new item at the end;
  \<^item> \<^verbatim>\<open>removeFoodItem\<close>, when \<^verbatim>\<open>findIndex\<close> has found index \<open>i\<close>, leaves the collection
    without that item;
  \<^item> \<^verbatim>\<open>updateFoodItem\<close>, when the merged record has passed validation, leaves the
    validated record at index \<open>i\<close>;
  \<^item> \<^verbatim>\<open>clearAllData\<close> leaves the empty collection.
\<close>

theorem failed_save_keeps_mutation:
  assumes "holds_items (database st) xs"
    and "write_fails (storage st) \<or> rename_fails (storage st)"
    and "\<not> write_fails d" and "\<not> rename_fails d"
  shows
    "(\<forall>validatedRequest item.
        AddFoodItemRequestSchema_parse P request = Inr validatedRequest \<and>
        FoodItemSchema_parse P (new_item P now uuid validatedRequest) = Inr item \<longrightarrow>
        fst (addFoodItem P now uuid request st) =
          Inl (DatabaseError ''Failed to add food item''
                (Some (DatabaseError ''Failed to save database'' (Some SystemError)))) \<and>
        kept_for_next_save P later d (snd (addFoodItem P now uuid request st)) (xs @ [item])) \<and>
     (\<forall>i. (truthy_str ident \<or> truthy_str name) \<and>
          findIndex (remove_match P ident name) xs = Inr (Some i) \<longrightarrow>
        fst (removeFoodItem P now ident name st) =
          Inl (DatabaseError ''Failed to save database'' (Some SystemError)) \<and>
        kept_for_next_save P later d (snd (removeFoodItem P now ident name st))
          (take i xs @ drop (Suc i) xs)) \<and>
     (\<forall>i item.
        findIndex (id_is key) xs = Inr (Some i) \<and>
        FoodItemSchema_parse P (merge_update P now (xs ! i) updates) = Inr item \<longrightarrow>
        fst (updateFoodItem P now key updates st) =
          Inl (DatabaseError ''Failed to save database'' (Some SystemError)) \<and>
        kept_for_next_save P later d (snd (updateFoodItem P now key updates st)) (xs[i := item])) \<and>
     fst (clearAllData P now st) =
       Inl (DatabaseError ''Failed to save database'' (Some SystemError)) \<and>
     kept_for_next_save P later d (snd (clearAllData P now st)) []"
proof -
  have i0: "items_of (database st) = Some xs"
    using assms(1) by (rule holds_items_items_of)
  have t0: "truthy (database st)"
    using i0 by (rule items_of_truthy)
  have keep: "fst (saveDatabase P now (st\<lparr>database := with_items ys (database st)\<rparr>)) =
           Inl (DatabaseError ''Failed to save database'' (Some SystemError)) \<and>
         kept_for_next_save P later d
           (snd (saveDatabase P now (st\<lparr>database := with_items ys (database st)\<rparr>))) ys" for ys
    using assms by (intro failed_save_keeps) simp_all
  have add: "fst (addFoodItem P now uuid request st) =
          Inl (DatabaseError ''Failed to add food item''
                (Some (DatabaseError ''Failed to save database'' (Some SystemError)))) \<and>
        kept_for_next_save P later d (snd (addFoodItem P now uuid request st)) (xs @ [item])"
    if "AddFoodItemRequestSchema_parse P request = Inr validatedRequest"
      "FoodItemSchema_parse P (new_item P now uuid validatedRequest) = Inr item"
    for validatedRequest item
  proof -
    have "addFoodItem P now uuid request st =
      (case saveDatabase P now (st\<lparr>database := with_items (xs @ [item]) (database st)\<rparr>) of
         (Inl e, st1) \<Rightarrow> (Inl (add_catch e), st1)
       | (Inr u, st1) \<Rightarrow> (Inr item, st1))"
      using that i0 t0 by (simp add: addFoodItem_def)
    then show ?thesis
      using keep[of "xs @ [item]"] by (auto simp: add_catch_def split: prod.splits sum.splits)
  qed
  have rem: "fst (removeFoodItem P now ident name st) =
          Inl (DatabaseError ''Failed to save database'' (Some SystemError)) \<and>
        kept_for_next_save P later d (snd (removeFoodItem P now ident name st))
          (take i xs @ drop (Suc i) xs)"
    if "truthy_str ident \<or> truthy_str name"
      "findIndex (remove_match P ident name) xs = Inr (Some i)" for i
  proof -
    have "removeFoodItem P now ident name st =
      (case saveDatabase P now
              (st\<lparr>database := with_items (take i xs @ drop (Suc i) xs) (database st)\<rparr>) of
         (Inl e, st1) \<Rightarrow> (Inl e, st1)
       | (Inr u, st1) \<Rightarrow> (Inr (xs ! i), st1))"
      using that i0 t0 by (auto simp: removeFoodItem_def)
    then show ?thesis
      using keep[of "take i xs @ drop (Suc i) xs"] by (auto split: prod.splits sum.splits)
  qed
  have upd: "fst (updateFoodItem P now key updates st) =
          Inl (DatabaseError ''Failed to save database'' (Some SystemError)) \<and>
        kept_for_next_save P later d (snd (updateFoodItem P now key updates st)) (xs[i := item])"
    if "findIndex (id_is key) xs = Inr (Some i)"
      "FoodItemSchema_parse P (merge_update P now (xs ! i) updates) = Inr item" for i item
  proof -
    have "updateFoodItem P now key updates st =
      (case saveDatabase P now (st\<lparr>database := with_items (xs[i := item]) (database st)\<rparr>) of
         (Inl e, st1) \<Rightarrow> (Inl e, st1)
       | (Inr u, st1) \<Rightarrow> (Inr item, st1))"
      using that i0 t0 by (simp add: updateFoodItem_def)
    then show ?thesis
      using keep[of "xs[i := item]"] by (auto split: prod.splits sum.splits)
  qed
  have clr: "fst (clearAllData P now st) =
       Inl (DatabaseError ''Failed to save database'' (Some SystemError)) \<and>
     kept_for_next_save P later d (snd (clearAllData P now st)) []"
  proof -
    from assms(1) obtain kvs where kvs: "database st = JObj kvs"
      by (auto simp: holds_items_iff)
    have "clearAllData P now st =
        saveDatabase P now (st\<lparr>database := with_items [] (database st)\<rparr>)"
      using kvs by (simp add: clearAllData_def with_items_def)
    then show ?thesis
      using keep[of "[]"] by simp
  qed
  show ?thesis
    using add rem upd clr by blast
qed

theorem failed_save_keeps_mutation_witness:
  "holds_items (database \<lparr>database = envelope [milk, bread], storage = empty_disk\<lparr>write_fails := True\<rparr>\<rparr>)
     [milk, bread] \<and>
   (write_fails (storage \<lparr>database = envelope [milk, bread], storage = empty_disk\<lparr>write_fails := True\<rparr>\<rparr>) \<or>
    rename_fails (storage \<lparr>database = envelope [milk, bread], storage = empty_disk\<lparr>write_fails := True\<rparr>\<rparr>)) \<and>
   \<not> write_fails empty_disk \<and> \<not> rename_fails empty_disk \<and>
   fst (addFoodItem sample_platform 0 fresh_uuid eggs_request
         \<lparr>database = envelope [milk, bread], storage = empty_disk\<lparr>write_fails := True\<rparr>\<rparr>) =
     Inl (DatabaseError ''Failed to add food item''
           (Some (DatabaseError ''Failed to save database'' (Some SystemError)))) \<and>
   kept_for_next_save sample_platform 86400000 empty_disk
     (snd (addFoodItem sample_platform 0 fresh_uuid eggs_request
         \<lparr>database = envelope [milk, bread], storage = empty_disk\<lparr>write_fails := True\<rparr>\<rparr>))
     ([milk, bread] @ [new_item sample_platform 0 fresh_uuid eggs_request]) \<and>
   fst (removeFoodItem sample_platform 0 None (Some ''Bread'')
         \<lparr>database = envelope [milk, bread], storage = empty_disk\<lparr>write_fails := True\<rparr>\<rparr>) =
     Inl (DatabaseError ''Failed to save database'' (Some SystemError)) \<and>
   kept_for_next_save sample_platform 86400000 empty_disk
     (snd (removeFoodItem sample_platform 0 None (Some ''Bread'')
         \<lparr>database = envelope [milk, bread], storage = empty_disk\<lparr>write_fails := True\<rparr>\<rparr>))
     [milk] \<and>
   fst (clearAllData sample_platform 0
         \<lparr>database = envelope [milk, bread], storage = empty_disk\<lparr>write_fails := True\<rparr>\<rparr>) =
     Inl (DatabaseError ''Failed to save database'' (Some SystemError)) \<and>
   kept_for_next_save sample_platform 86400000 empty_disk
     (snd (clearAllData sample_platform 0
         \<lparr>database = envelope [milk, bread], storage = empty_disk\<lparr>write_fails := True\<rparr>\<rparr>))
     []"
proof -
  let ?st = "\<lparr>database = envelope [milk, bread], storage = empty_disk\<lparr>write_fails := True\<rparr>\<rparr>"
  have h1: "holds_items (database ?st) [milk, bread]"
    by (simp add: holds_items_def envelope_def)
  have h2: "write_fails (storage ?st) \<or> rename_fails (storage ?st)"
    by simp
  have h3: "\<not> write_fails empty_disk" and h4: "\<not> rename_fails empty_disk"
    by (simp_all add: empty_disk_def healthy_disk_def)
  have a1: "AddFoodItemRequestSchema_parse sample_platform eggs_request = Inr eggs_request"
    by (simp add: schema_defs eggs_request_def)
  have a2: "FoodItemSchema_parse sample_platform (new_item sample_platform 0 fresh_uuid eggs_request)
     = Inr (new_item sample_platform 0 fresh_uuid eggs_request)"
    by (simp add: schema_defs eggs_request_def new_item_def spread_def entries_def
          sample_platform_def calendar_def fresh_uuid_def)
  have r1: "truthy_str None \<or> truthy_str (Some ''Bread'')"
    by (simp add: truthy_str_def)
  have r2: "findIndex (remove_match sample_platform None (Some ''Bread'')) [milk, bread] = Inr (Some 1)"
    by (simp add: remove_match_def name_is_def milk_def bread_def sample_platform_def
          ascii_lower_def ascii_lower_char_def)
  note t = failed_save_keeps_mutation [OF h1 h2 h3 h4, of sample_platform eggs_request 0 fresh_uuid
      86400000 None "Some ''Bread''"]
  from t a1 a2 have add: "fst (addFoodItem sample_platform 0 fresh_uuid eggs_request ?st) =
     Inl (DatabaseError ''Failed to add food item''
           (Some (DatabaseError ''Failed to save database'' (Some SystemError)))) \<and>
   kept_for_next_save sample_platform 86400000 empty_disk
     (snd (addFoodItem sample_platform 0 fresh_uuid eggs_request ?st))
     ([milk, bread] @ [new_item sample_platform 0 fresh_uuid eggs_request])"
    by blast
  from t r1 r2 have rem: "fst (removeFoodItem sample_platform 0 None (Some ''Bread'') ?st) =
     Inl (DatabaseError ''Failed to save database'' (Some SystemError)) \<and>
   kept_for_next_save sample_platform 86400000 empty_disk
     (snd (removeFoodItem sample_platform 0 None (Some ''Bread'') ?st))
     (take 1 [milk, bread] @ drop (Suc 1) [milk, bread])"
    by blast
  from t have clr: "fst (clearAllData sample_platform 0 ?st) =
     Inl (DatabaseError ''Failed to save database'' (Some SystemError)) \<and>
   kept_for_next_save sample_platform 86400000 empty_disk
     (snd (clearAllData sample_platform 0 ?st)) []"
    by blast
  from rem have rem': "fst (removeFoodItem sample_platform 0 None (Some ''Bread'') ?st) =
     Inl (DatabaseError ''Failed to save database'' (Some SystemError)) \<and>
   kept_for_next_save sample_platform 86400000 empty_disk
     (snd (removeFoodItem sample_platform 0 None (Some ''Bread'') ?st)) [milk]"
    by simp
  show ?thesis
    using h1 h2 h3 h4 add rem' clr by blast
qed

text \<open>
  C10, as the claim states it: every operation called before \<^verbatim>\<open>initialize\<close> throws the
  \<open>DatabaseError\<close> "Database not initialized". For \<^verbatim>\<open>addFoodItem\<close> with a valid
  request this is not what the caller receives: the method's own \<^verbatim>\<open>catch\<close> block wraps
  that error, and the error thrown carries the message "Failed to add food item".
\<close>

theorem addFoodItem_uninitialized_counterexample:
  "fst (addFoodItem sample_platform 0 fresh_uuid eggs_request (new_service empty_disk)) =
     Inl (DatabaseError ''Failed to add food item''
           (Some (DatabaseError ''Database not initialized'' None))) \<and>
   fst (addFoodItem sample_platform 0 fresh_uuid eggs_request (new_service empty_disk)) \<noteq>
     Inl (DatabaseError ''Database not initialized'' None)"
  by (simp add: addFoodItem_def add_catch_def schema_defs eggs_request_def new_item_def
        spread_def entries_def sample_platform_def calendar_def fresh_uuid_def new_service_def)

text \<open>
  C10, amended. Before \<^verbatim>\<open>initialize\<close> has run (the \<^verbatim>\<open>database\<close> field is still
  \<^verbatim>\<open>null\<close>), \<^verbatim>\<open>removeFoodItem\<close> with a selector, \<^verbatim>\<open>listFoodItems\<close>,
  \<^verbatim>\<open>getFoodItemById\<close>, \<^verbatim>\<open>updateFoodItem\<close> and \<^verbatim>\<open>getStats\<close> throw the
  \<open>DatabaseError\<close> "Database not initialized"; \<^verbatim>\<open>addFoodItem\<close> with a valid request
  throws the \<open>DatabaseError\<close> "Failed to add food item" whose original error is that
  one. In every case the state of the service (database field and disk) is unchanged.
\<close>

theorem uninitialized_operations_fail:
  assumes "database st = JNull"
    and "truthy_str ident \<or> truthy_str name"
    and "AddFoodItemRequestSchema_parse P request = Inr validatedRequest"
    and "is_uuid P uuid" and "is_datetime P (toISOString P now)"
  shows "addFoodItem P now uuid request st =
           (Inl (DatabaseError ''Failed to add food item''
                  (Some (DatabaseError ''Database not initialized'' None))), st) \<and>
         removeFoodItem P now ident name st =
           (Inl (DatabaseError ''Database not initialized'' None), st) \<and>
         listFoodItems P now clock filters st =
           (Inl (DatabaseError ''Database not initialized'' None), st) \<and>
         getFoodItemById i st = (Inl (DatabaseError ''Database not initialized'' None), st) \<and>
         updateFoodItem P now i updates st =
           (Inl (DatabaseError ''Database not initialized'' None), st) \<and>
         getStats P now clock st = (Inl (DatabaseError ''Database not initialized'' None), st)"
proof -
  from new_item_valid[OF assms(3,4,5)] obtain item where
    "FoodItemSchema_parse P (new_item P now uuid validatedRequest) = Inr item"
    by (auto simp: isOk_def split: sum.splits)
  then have "addFoodItem P now uuid request st =
           (Inl (DatabaseError ''Failed to add food item''
                  (Some (DatabaseError ''Database not initialized'' None))), st)"
    using assms(1,3) by (simp add: addFoodItem_def add_catch_def)
  moreover have "removeFoodItem P now ident name st =
           (Inl (DatabaseError ''Database not initialized'' None), st)"
    using assms(1,2) by (auto simp: removeFoodItem_def)
  ultimately show ?thesis
    using assms(1) by (simp add: listFoodItems_def getFoodItemById_def updateFoodItem_def getStats_def)
qed

theorem uninitialized_operations_fail_witness:
  "database (new_service empty_disk) = JNull \<and>
   (truthy_str (Some ''11111111-1111-4111-8111-111111111111'') \<or> truthy_str None) \<and>
   AddFoodItemRequestSchema_parse sample_platform eggs_request = Inr eggs_request \<and>
   is_uuid sample_platform fresh_uuid \<and>
   is_datetime sample_platform (toISOString sample_platform 0) \<and>
   addFoodItem sample_platform 0 fresh_uuid eggs_request (new_service empty_disk) =
     (Inl (DatabaseError ''Failed to add food item''
            (Some (DatabaseError ''Database not initialized'' None))), new_service empty_disk) \<and>
   removeFoodItem sample_platform 0 (Some ''11111111-1111-4111-8111-111111111111'') None
       (new_service empty_disk) =
     (Inl (DatabaseError ''Database not initialized'' None), new_service empty_disk) \<and>
   listFoodItems sample_platform 0 (frozen 0) no_filters (new_service empty_disk) =
     (Inl (DatabaseError ''Database not initialized'' None), new_service empty_disk) \<and>
   getFoodItemById ''11111111-1111-4111-8111-111111111111'' (new_service empty_disk) =
     (Inl (DatabaseError ''Database not initialized'' None), new_service empty_disk) \<and>
   updateFoodItem sample_platform 0 ''11111111-1111-4111-8111-111111111111''
       [(''quantity'', JNum 2)] (new_service empty_disk) =
     (Inl (DatabaseError ''Database not initialized'' None), new_service empty_disk) \<and>
   getStats sample_platform 0 (frozen 0) (new_service empty_disk) =
     (Inl (DatabaseError ''Database not initialized'' None), new_service empty_disk)"
proof -
  have h1: "database (new_service empty_disk) = JNull"
    by (simp add: new_service_def)
  have h2: "truthy_str (Some ''11111111-1111-4111-8111-111111111111'') \<or> truthy_str None"
    by (simp add: truthy_str_def)
  have h3: "AddFoodItemRequestSchema_parse sample_platform eggs_request = Inr eggs_request"
    by (simp add: schema_defs eggs_request_def)
  have h4: "is_uuid sample_platform fresh_uuid"
    by (simp add: sample_platform_def fresh_uuid_def)
  have h5: "is_datetime sample_platform (toISOString sample_platform 0)"
    by (simp add: sample_platform_def calendar_def)
  show ?thesis
    using uninitialized_operations_fail [OF h1 h2 h3 h4 h5,
        where filters = no_filters and clock = "frozen 0"
          and i = "''11111111-1111-4111-8111-111111111111''"
          and updates = "[(''quantity'', JNum 2)]"]
      h1 h2 h3 h4 h5
    by simp
qed

section \<open>updateFoodItem\<close>

text \<open>
  C5. Let the collection hold, at index \<open>i\<close>, the first item whose id is the one asked
  for, and let the payload be any list of keys and values (it may name \<^verbatim>\<open>id\<close>,
  \<^verbatim>\<open>addedDate\<close> or \<^verbatim>\<open>lastModified\<close>). If the merged record fails validation,
  \<^verbatim>\<open>updateFoodItem\<close> throws and the state, hence the original record, is as before.
  Otherwise the validated record has the id and the addedDate of the existing record,
  its lastModified is the current time, it is stored at index \<open>i\<close>, and it is what
  the call returns when the save succeeds.
\<close>

theorem updateFoodItem_preserves_identity:
  assumes "items_of (database st) = Some xs" and "findIndex (id_is ident) xs = Inr (Some i)"
  shows "case FoodItemSchema_parse P (merge_update P now (xs ! i) updates) of
           Inl issues \<Rightarrow> updateFoodItem P now ident updates st = (Inl (ZodError issues), st)
         | Inr item \<Rightarrow>
             property ''id'' item = Inr (Some (JStr ident)) \<and>
             property ''id'' item = property ''id'' (xs ! i) \<and>
             property ''addedDate'' item = property ''addedDate'' (xs ! i) \<and>
             property ''lastModified'' item = Inr (Some (JStr (toISOString P now))) \<and>
             items_of (database (snd (updateFoodItem P now ident updates st))) = Some (xs[i := item]) \<and>
             fst (updateFoodItem P now ident updates st) =
               (if write_fails (storage st) \<or> rename_fails (storage st)
                then Inl (DatabaseError ''Failed to save database'' (Some SystemError))
                else Inr item)"
proof (cases "FoodItemSchema_parse P (merge_update P now (xs ! i) updates)")
  case (Inl issues)
  show ?thesis
    using Inl assms items_of_truthy[OF assms(1)] by (simp add: updateFoodItem_def)
next
  case (Inr item)
  from findIndex_Some[OF assms(2)] have hit: "i < length xs" "id_is ident (xs ! i) = Inr True"
    by auto
  define old where "old = entries (xs ! i)"
  from id_is_TrueD[OF hit(2)] have old: "map_of old ''id'' = Some (JStr ident)"
      "\<And>k. property k (xs ! i) = Inr (map_of old k)"
    by (simp_all add: old_def)
  let ?m = "merge_update P now (xs ! i) updates"
  obtain ms where ms: "?m = JObj ms" by (simp add: merge_update_def)
  from Inr have item: "item = JObj (strip (FoodItemSchema P) ms)" "valid_fields P ms"
    by (auto simp: FoodItemSchema_parse_def z_object_parse_Inr ms FoodItem_issues_Nil_iff)
  have keys: "''id'' \<in> fst ` set (FoodItemSchema P)" "''addedDate'' \<in> fst ` set (FoodItemSchema P)"
     "''lastModified'' \<in> fst ` set (FoodItemSchema P)"
    by (simp_all add: FoodItemSchema_def)
  have m: "map_of ms k =
     (if k = ''lastModified'' then Some (JStr (toISOString P now))
      else if k = ''addedDate'' then map_of old ''addedDate''
      else if k = ''id'' then map_of old ''id''
      else (map_of old ++ map_of (rev updates)) k)" for k
    using map_of_merge_update[of P now "xs ! i" updates k] ms by (simp add: entries_def old_def)
  have p1: "property ''id'' item = Inr (Some (JStr ident))"
    by (simp add: item(1) map_of_strip keys m old(1))
  have p2: "property ''addedDate'' item = property ''addedDate'' (xs ! i)"
    by (simp add: item(1) map_of_strip keys m old(2))
  have p3: "property ''lastModified'' item = Inr (Some (JStr (toISOString P now)))"
    by (simp add: item(1) map_of_strip keys m)
  let ?stored = "st\<lparr>database := with_items (xs[i := item]) (database st)\<rparr>"
  have stored: "items_of (database ?stored) = Some (xs[i := item])"
    using assms(1) by simp
  have upd: "updateFoodItem P now ident updates st =
      (case saveDatabase P now ?stored of
         (Inl e, st1) \<Rightarrow> (Inl e, st1)
       | (Inr u, st1) \<Rightarrow> (Inr item, st1))"
    using assms Inr items_of_truthy[OF assms(1)] by (simp add: updateFoodItem_def)
  have s1: "items_of (database (snd (updateFoodItem P now ident updates st))) = Some (xs[i := item])"
    using assms(1) by (simp add: upd saveDatabase_loaded[OF stored])
  have s2: "fst (updateFoodItem P now ident updates st) =
               (if write_fails (storage st) \<or> rename_fails (storage st)
                then Inl (DatabaseError ''Failed to save database'' (Some SystemError))
                else Inr item)"
    by (simp add: upd saveDatabase_loaded[OF stored])
  show ?thesis
    using Inr p1 p2 p3 s1 s2 old by simp
qed

theorem updateFoodItem_preserves_identity_witness:
  "items_of (database \<lparr>database = envelope [bread, milk], storage = empty_disk\<rparr>)
     = Some [bread, milk] \<and>
   findIndex (id_is ''11111111-1111-4111-8111-111111111111'') [bread, milk] = Inr (Some 1) \<and>
   fst (updateFoodItem sample_platform 86400000 ''11111111-1111-4111-8111-111111111111''
          [(''id'', JStr fresh_uuid), (''addedDate'', JStr ''1970-01-09T00:00:00.000Z''),
           (''quantity'', JNum 3)]
          \<lparr>database = envelope [bread, milk], storage = empty_disk\<rparr>) =
     Inr (JObj [(''id'', JStr ''11111111-1111-4111-8111-111111111111''),
                (''name'', JStr ''Milk''),
                (''quantity'', JNum 3),
                (''unit'', JStr ''liter''),
                (''expirationDate'', JStr ''1970-01-08T00:00:00.000Z''),
                (''category'', JStr ''dairy''),
                (''addedDate'', JStr ''1970-01-01T00:00:00.000Z''),
                (''lastModified'', JStr ''1970-01-02T00:00:00.000Z'')])"
proof -
  let ?st = "\<lparr>database = envelope [bread, milk], storage = empty_disk\<rparr>"
  have h1: "items_of (database ?st) = Some [bread, milk]"
    by (simp add: items_of_def envelope_def)
  have h2: "findIndex (id_is ''11111111-1111-4111-8111-111111111111'') [bread, milk] = Inr (Some 1)"
    by (simp add: id_is_def milk_def bread_def)
  have parse: "FoodItemSchema_parse sample_platform
       (merge_update sample_platform 86400000 milk
          [(''id'', JStr fresh_uuid), (''addedDate'', JStr ''1970-01-09T00:00:00.000Z''),
           (''quantity'', JNum 3)]) =
     Inr (JObj [(''id'', JStr ''11111111-1111-4111-8111-111111111111''),
                (''name'', JStr ''Milk''),
                (''quantity'', JNum 3),
                (''unit'', JStr ''liter''),
                (''expirationDate'', JStr ''1970-01-08T00:00:00.000Z''),
                (''category'', JStr ''dairy''),
                (''addedDate'', JStr ''1970-01-01T00:00:00.000Z''),
                (''lastModified'', JStr ''1970-01-02T00:00:00.000Z'')])"
    by (simp add: schema_defs merge_update_def put_def spread_def entries_def milk_def
          sample_platform_def calendar_def)
  show ?thesis
    using updateFoodItem_preserves_identity [OF h1 h2, of sample_platform 86400000
        "[(''id'', JStr fresh_uuid), (''addedDate'', JStr ''1970-01-09T00:00:00.000Z''),
          (''quantity'', JNum 3)]"] h1 h2
    by (simp add: parse empty_disk_def healthy_disk_def)
qed

section \<open>Loading a store\<close>

text \<open>
  C2, as the claim states it: a primary file that parses to a structure whose
  \<^verbatim>\<open>items\<close> field is not a sequence is treated like a missing file, and
  \<^verbatim>\<open>initialize\<close> does not fail. In the code the structure check of \<^verbatim>\<open>loadDatabase\<close>
  throws "Invalid database structure" for such a document, and \<^verbatim>\<open>initialize\<close>
  rethrows it as a \<open>DatabaseError\<close>: here the main file holds
  \<^verbatim>\<open>{"items": {}, "version": "1.0.0"}\<close> and there is no backup.
\<close>

theorem initialize_items_not_array_counterexample:
  "fst (initialize sample_platform 0 (new_service items_not_array_disk)) =
     Inl (DatabaseError ''Database initialization failed''
           (Some (DatabaseError ''Failed to load database''
                   (Some (PlainError ''Invalid database structure'')))))"
  by (simp add: initialize_def loadDatabase_def load_sources_def load_validate_def read_json_def
        fs_readFile_def fs_mkdir_def JSON_parse_def items_of_def new_service_def
        items_not_array_disk_def healthy_disk_def)

text \<open>
  C2, amended. When the primary file cannot be read or is malformed, the backup cannot be
  read or is malformed either, and creating the directory, writing the temporary file
  and renaming it succeed, \<^verbatim>\<open>initialize\<close> succeeds with the empty envelope, and a
  following \<^verbatim>\<open>listFoodItems({})\<close> returns no items and does not throw.
\<close>

theorem initialize_without_sources_starts_empty:
  assumes "\<not> mkdir_fails d" and "\<not> write_fails d" and "\<not> rename_fails d"
    and "unreadable d DataPath \<or> files d DataPath = None \<or> files d DataPath = Some Malformed"
    and "unreadable d BackupPath \<or> files d BackupPath = None \<or> files d BackupPath = Some Malformed"
  shows "fst (initialize P now (new_service d)) = Inr () \<and>
         database (snd (initialize P now (new_service d))) = createEmptyDatabase P now \<and>
         items_of (database (snd (initialize P now (new_service d)))) = Some [] \<and>
         listFoodItems P later clock no_filters (snd (initialize P now (new_service d))) =
           (Inr [], snd (initialize P now (new_service d)))"
proof -
  let ?st = "new_service d"
  let ?fresh = "?st\<lparr>database := createEmptyDatabase P now\<rparr>"
  from assms(4) obtain e1 where e1: "read_json DataPath d = Inl e1"
    using read_json_Inl_iff[of DataPath d] by auto
  from assms(5) obtain e2 where e2: "read_json BackupPath d = Inl e2"
    using read_json_Inl_iff[of BackupPath d] by auto
  have db: "items_of (database ?fresh) = Some []"
    by (simp add: createEmptyDatabase_items)
  have src: "load_sources P now ?st = saveDatabase P now ?fresh"
    using e1 e2 by (simp add: load_sources_def new_service_def)
  have sav: "fst (saveDatabase P now ?fresh) = Inr ()"
     "database (snd (saveDatabase P now ?fresh)) = createEmptyDatabase P now"
     "write_fails (storage (snd (saveDatabase P now ?fresh))) = write_fails d"
    using assms(2,3) saveDatabase_loaded[OF db, of P now]
    by (simp_all add: createEmptyDatabase_stamped new_service_def)
  let ?st1 = "snd (saveDatabase P now ?fresh)"
  have kvs: "database ?st1 = JObj [(''items'', JArr []),
           (''lastModified'', JStr (toISOString P now)),
           (''version'', JStr ''1.0.0'')]"
    using sav(2) by (simp add: createEmptyDatabase_def)
  have val: "load_validate P now ?st1 = (Inr (), ?st1)"
    by (simp add: load_validate_def kvs items_of_JObj truthy_opt_def)
  have ld: "loadDatabase P now ?st = (Inr (), ?st1)"
    using sav(1) val by (simp add: loadDatabase_split src)
  have ini: "initialize P now ?st = (Inr (), ?st1)"
    using assms(1) ld by (simp add: initialize_def fs_mkdir_def new_service_def)
  have lst: "listFoodItems P later clock no_filters ?st1 = (Inr [], ?st1)"
    by (simp add: listFoodItems_def kvs spread_items_def no_filters_def truthy_str_def sort_by_name_def)
  have emp: "items_of (createEmptyDatabase P now) = Some []"
    by (simp add: createEmptyDatabase_def items_of_JObj)
  show ?thesis
    using ini sav(2) lst emp by simp
qed

theorem initialize_without_sources_starts_empty_witness:
  "\<not> mkdir_fails corrupt_only_disk \<and> \<not> write_fails corrupt_only_disk \<and>
   \<not> rename_fails corrupt_only_disk \<and>
   (unreadable corrupt_only_disk DataPath \<or> files corrupt_only_disk DataPath = None \<or>
    files corrupt_only_disk DataPath = Some Malformed) \<and>
   (unreadable corrupt_only_disk BackupPath \<or> files corrupt_only_disk BackupPath = None \<or>
    files corrupt_only_disk BackupPath = Some Malformed) \<and>
   fst (initialize sample_platform 0 (new_service corrupt_only_disk)) = Inr () \<and>
   items_of (database (snd (initialize sample_platform 0 (new_service corrupt_only_disk))))
     = Some [] \<and>
   fst (listFoodItems sample_platform 86400000 (frozen 86400000) no_filters
          (snd (initialize sample_platform 0 (new_service corrupt_only_disk)))) = Inr []"
proof -
  have h1: "\<not> mkdir_fails corrupt_only_disk" and h2: "\<not> write_fails corrupt_only_disk"
    and h3: "\<not> rename_fails corrupt_only_disk"
    by (simp_all add: corrupt_only_disk_def healthy_disk_def)
  have h4: "unreadable corrupt_only_disk DataPath \<or> files corrupt_only_disk DataPath = None \<or>
    files corrupt_only_disk DataPath = Some Malformed"
    by (simp add: corrupt_only_disk_def healthy_disk_def)
  have h5: "unreadable corrupt_only_disk BackupPath \<or> files corrupt_only_disk BackupPath = None \<or>
    files corrupt_only_disk BackupPath = Some Malformed"
    by (simp add: corrupt_only_disk_def healthy_disk_def)
  note t = initialize_without_sources_starts_empty [OF h1 h2 h3 h4 h5, of sample_platform 0 86400000
      "frozen 86400000"]
  from t have l: "fst (listFoodItems sample_platform 86400000 (frozen 86400000) no_filters
          (snd (initialize sample_platform 0 (new_service corrupt_only_disk)))) = Inr []"
    by simp
  show ?thesis
    using t l h1 h2 h3 h4 h5 by blast
qed

text \<open>
  C3. The claim: after every save, the repair-on-read save included, the backup file
  holds the last-known-good contents of the primary. The code on a disk whose main file
  is malformed and whose backup holds a good envelope: the load reads the backup, and
  the save that restores the main file first copies the malformed main file over the
  backup. \<^verbatim>\<open>initialize\<close> succeeds, and the backup, which was the only good copy, now
  holds the malformed text.
\<close>

theorem repair_save_overwrites_backup:
  "fst (initialize sample_platform 86400000 (new_service corrupt_primary_disk)) = Inr () \<and>
   files (storage (snd (initialize sample_platform 86400000 (new_service corrupt_primary_disk))))
     BackupPath = Some Malformed \<and>
   files corrupt_primary_disk BackupPath = Some (Document (envelope [milk]))"
  by (simp add: initialize_def loadDatabase_def load_sources_def load_validate_def read_json_def
        fs_readFile_def fs_mkdir_def JSON_parse_def items_of_def new_service_def
        corrupt_primary_disk_def healthy_disk_def saveDatabase_def backup_step_def
        fs_access_def fs_copyFile_def fs_writeFile_def fs_rename_def envelope_def
        truthy_opt_def milk_def schema_defs items_length_def isOk_def sample_platform_def calendar_def)

text \<open>
  C6. After every load that succeeds (here through \<^verbatim>\<open>initialize\<close>), the in-memory
  collection is the array of the adopted document filtered by \<open>FoodItemSchema\<close>: every
  item in it passes validation, and the items that do not pass are dropped while the
  others are kept as they were read. Records that fail validation never make the load
  fail: once a document with an \<^verbatim>\<open>items\<close> array \<open>zs\<close> has been adopted, whatever
  \<open>zs\<close> holds, \<^verbatim>\<open>initialize\<close> succeeds when the directory can be created and writes
  are accepted.
\<close>

theorem load_keeps_exactly_the_valid_items:
  "(initialize P now st = (Inr u, st') \<longrightarrow>
      (\<exists>ys. items_of (database (snd (load_sources P now st))) = Some ys \<and>
            items_of (database st') = Some (filter (valid_item P) ys) \<and>
            list_all (valid_item P) (filter (valid_item P) ys))) \<and>
   (\<not> mkdir_fails (storage st) \<and> fst (load_sources P now st) = Inr () \<and>
    items_of (database (snd (load_sources P now st))) = Some zs \<and>
    \<not> write_fails (storage st) \<and> \<not> rename_fails (storage st) \<longrightarrow>
      fst (initialize P now st) = Inr ())"
proof (intro conjI impI)
  assume ok: "initialize P now st = (Inr u, st')"
  let ?st1 = "snd (load_sources P now st)"
  from ok have l: "loadDatabase P now st = (Inr (), st')"
    by (auto simp: initialize_def split: sum.splits prod.splits)
  then have src: "fst (load_sources P now st) = Inr ()"
    and val: "fst (load_validate P now ?st1) = Inr ()" "st' = snd (load_validate P now ?st1)"
    by (auto simp: loadDatabase_split split: sum.splits)
  have "items_of (database ?st1) \<noteq> None"
    using val(1) load_validate_fails[of ?st1 P now] by (cases "items_of (database ?st1)") auto
  then obtain ys where ys: "items_of (database ?st1) = Some ys" by auto
  show "\<exists>ys. items_of (database ?st1) = Some ys \<and>
            items_of (database st') = Some (filter (valid_item P) ys) \<and>
            list_all (valid_item P) (filter (valid_item P) ys)"
    using ys load_validate_items[OF ys, of P now] val(2) by (auto simp: list_all_iff)
next
  assume a: "\<not> mkdir_fails (storage st) \<and> fst (load_sources P now st) = Inr () \<and>
    items_of (database (snd (load_sources P now st))) = Some zs \<and>
    \<not> write_fails (storage st) \<and> \<not> rename_fails (storage st)"
  then have "fst (load_validate P now (snd (load_sources P now st))) = Inr ()"
    using load_validate_result[of "snd (load_sources P now st)" zs P now]
    by (simp add: load_sources_flags)
  with a show "fst (initialize P now st) = Inr ()"
    by (simp add: initialize_def fs_mkdir_def loadDatabase_split)
qed

theorem load_keeps_exactly_the_valid_items_witness:
  "initialize sample_platform 0 (new_service mixed_disk) =
     (Inr (), \<lparr>database = envelope [milk, bread], storage = mixed_disk\<rparr>) \<and>
   items_of (database (snd (load_sources sample_platform 0 (new_service mixed_disk))))
     = Some [milk, ghost, bread] \<and>
   \<not> mkdir_fails (storage (new_service mixed_disk)) \<and>
   fst (load_sources sample_platform 0 (new_service mixed_disk)) = Inr () \<and>
   \<not> write_fails (storage (new_service mixed_disk)) \<and>
   \<not> rename_fails (storage (new_service mixed_disk)) \<and>
   (\<exists>ys. items_of (database (snd (load_sources sample_platform 0 (new_service mixed_disk))))
            = Some ys \<and>
         items_of (database \<lparr>database = envelope [milk, bread], storage = mixed_disk\<rparr>)
            = Some (filter (valid_item sample_platform) ys) \<and>
         list_all (valid_item sample_platform) (filter (valid_item sample_platform) ys)) \<and>
   fst (initialize sample_platform 0 (new_service mixed_disk)) = Inr ()"
proof -
  have src: "load_sources sample_platform 0 (new_service mixed_disk) =
      (Inr (), \<lparr>database = envelope [milk, ghost, bread], storage = mixed_disk\<rparr>)"
    by (simp add: load_sources_def read_json_def fs_readFile_def JSON_parse_def new_service_def
          mixed_disk_def healthy_disk_def)
  have val: "load_validate sample_platform 0
        \<lparr>database = envelope [milk, ghost, bread], storage = mixed_disk\<rparr> =
      (Inr (), \<lparr>database = envelope [milk, bread], storage = mixed_disk\<rparr>)"
    using valid_milk valid_bread invalid_ghost
    by (simp add: load_validate_def items_of_def envelope_def truthy_opt_def valid_item_def)
  have a: "initialize sample_platform 0 (new_service mixed_disk) =
     (Inr (), \<lparr>database = envelope [milk, bread], storage = mixed_disk\<rparr>)"
  proof -
    have ld: "loadDatabase sample_platform 0 (new_service mixed_disk) =
       (Inr (), \<lparr>database = envelope [milk, bread], storage = mixed_disk\<rparr>)"
      by (simp add: loadDatabase_def src val)
    have mk: "fs_mkdir (storage (new_service mixed_disk)) = Inr ()"
      by (simp add: fs_mkdir_def new_service_def mixed_disk_def healthy_disk_def)
    show ?thesis
      by (simp add: initialize_def ld mk)
  qed
  have b: "items_of (database (snd (load_sources sample_platform 0 (new_service mixed_disk))))
     = Some [milk, ghost, bread]"
    by (simp add: src items_of_def envelope_def)
  have c: "\<not> mkdir_fails (storage (new_service mixed_disk))"
     "\<not> write_fails (storage (new_service mixed_disk))"
     "\<not> rename_fails (storage (new_service mixed_disk))"
    by (simp_all add: new_service_def mixed_disk_def healthy_disk_def)
  have d: "fst (load_sources sample_platform 0 (new_service mixed_disk)) = Inr ()"
    by (simp add: src)
  show ?thesis
    using load_keeps_exactly_the_valid_items [of sample_platform 0 "new_service mixed_disk" "()"
        "\<lparr>database = envelope [milk, bread], storage = mixed_disk\<rparr>" "[milk, ghost, bread]"]
      a b c d
    by blast
qed

text \<open>
  A backup that parses but has no \<^verbatim>\<open>items\<close> is one of the loads the statement above
  covers. The save that restores the main file from it writes the file and then throws
  while reading \<^verbatim>\<open>items.length\<close> for its log line; the cascade catches that, creates
  the empty database, and \<^verbatim>\<open>initialize\<close> succeeds with no items.
\<close>

lemma initialize_backup_without_items:
  "fst (initialize sample_platform 0 (new_service bare_backup_disk)) = Inr () \<and>
   items_of (database (snd (initialize sample_platform 0 (new_service bare_backup_disk)))) = Some []"
  by (simp add: initialize_def loadDatabase_def load_sources_def load_validate_def read_json_def
        fs_readFile_def fs_mkdir_def JSON_parse_def items_of_def new_service_def
        bare_backup_disk_def healthy_disk_def saveDatabase_def backup_step_def
        fs_access_def fs_copyFile_def fs_writeFile_def fs_rename_def items_length_def
        createEmptyDatabase_def truthy_opt_def)

section \<open>removeFoodItem\<close>

text \<open>
  C4. The claim: when both an id and a name are supplied, lookup is by id, and the name is
  used only when the id is absent. The code on a store holding Milk and then Bread, asked
  to remove the id of Bread together with the name "Milk": the predicate handed to
  \<^verbatim>\<open>findIndex\<close> is the disjunction of the id test and the name test, so the first item
  that passes either one is taken. Milk, whose id is not the one asked for, is removed and
  returned, and Bread, whose id was asked for, stays in the collection. This holds on
  every platform and at every instant.
\<close>

theorem removeFoodItem_both_selectors_removes_other_item:
  "fst (removeFoodItem P now (Some ''22222222-2222-4222-8222-222222222222'') (Some ''Milk'')
          \<lparr>database = envelope [milk, bread], storage = empty_disk\<rparr>) = Inr milk \<and>
   items_of (database (snd (removeFoodItem P now (Some ''22222222-2222-4222-8222-222222222222'')
          (Some ''Milk'') \<lparr>database = envelope [milk, bread], storage = empty_disk\<rparr>)))
     = Some [bread] \<and>
   id_is ''22222222-2222-4222-8222-222222222222'' bread = Inr True \<and>
   id_is ''22222222-2222-4222-8222-222222222222'' milk = Inr False"
  by (simp add: removeFoodItem_def truthy_str_def envelope_def items_of_def remove_match_def
        id_is_def name_is_def milk_def bread_def saveDatabase_def items_length_def
        backup_step_def fs_access_def fs_writeFile_def fs_rename_def with_items_def
        empty_disk_def healthy_disk_def)

section \<open>listFoodItems\<close>

text \<open>
  C7. On a loaded store whose items all pass the schema, with the expiring-soon filter
  active and threshold \<open>d\<close> (7 when \<^verbatim>\<open>expiringSoonDays\<close> is unspecified, the given
  number otherwise; a given 0 is not a threshold of the request schema and is excluded),
  let \<open>limit\<close> be the instant \<open>d\<close> days after \<open>now\<close> on the calendar of the process, as
  \<^verbatim>\<open>setDate\<close> computes it. \<^verbatim>\<open>listFoodItems\<close> returns, in name order, exactly the items
  that pass the category and location filters and whose expiration date is present, at
  or after the clock reading taken when the item is tested, and at or before \<open>limit\<close>.
  Hence, when the clock does not advance during the call, these are exactly the items
  with an expiration date between \<open>now\<close> and \<open>limit\<close>; in general every returned item
  expires between \<open>now\<close> and \<open>limit\<close>, and every item that expires between the end of
  the call and \<open>limit\<close> is returned. An item expiring exactly at \<open>limit\<close> is included,
  one expiring \<open>d + 1\<close> days out is excluded, and an item with no expiration date is
  excluded. In a time zone whose offset does not change within the window, \<open>limit\<close> is
  \<open>now + d * 86400000\<close> ms, and the last part of the statement gives the two boundary
  cases in milliseconds. The platform fact used is that the empty string is not a
  datetime.
\<close>

theorem listFoodItems_expiring_soon:
  assumes "items_of (database st) = Some xs" and "list_all (valid_item P) xs"
    and "\<not> is_datetime P []"
    and "expiringSoon request = Some True"
    and "expiringSoonDays request = None \<and> d = 7 \<or> expiringSoonDays request = Some d \<and> d \<noteq> 0"
    and "addDays P now d = Some limit"
  shows "\<exists>ys. listFoodItems P now clock request st = (Inr ys, st) \<and>
           mset ys = mset (map snd (filter (\<lambda>(i, item). in_window P (clock i) limit item)
                                      (enumerate 0 (filter (text_filters P request) xs)))) \<and>
           ((\<forall>i. clock i = now) \<longrightarrow>
              mset ys = mset (filter (\<lambda>item. text_filters P request item \<and>
                                           in_window P now limit item) xs)) \<and>
           ((\<forall>i. now \<le> clock i) \<longrightarrow>
              (\<forall>item \<in> set ys. text_filters P request item \<and> in_window P now limit item)) \<and>
           (\<forall>finish. (\<forall>i. clock i \<le> finish) \<longrightarrow>
              (\<forall>item \<in> set xs. text_filters P request item \<and> in_window P finish limit item
                 \<longrightarrow> item \<in> set ys)) \<and>
           (\<forall>item \<in> set xs. \<forall>v.
              map_of (entries item) ''expirationDate'' = Some v \<and> new_Date P v = Some limit \<and>
              (\<forall>i. clock i \<le> limit) \<and> text_filters P request item \<longrightarrow> item \<in> set ys) \<and>
           (\<forall>item \<in> set xs. \<forall>v t.
              map_of (entries item) ''expirationDate'' = Some v \<and> new_Date P v = Some t \<and>
              addDays P now (d + 1) = Some t \<and> limit < t \<longrightarrow> item \<notin> set ys) \<and>
           (\<forall>item \<in> set xs.
              map_of (entries item) ''expirationDate'' = None \<longrightarrow> item \<notin> set ys) \<and>
           (limit = now + d * 86400000 \<longrightarrow>
              (\<forall>item \<in> set xs. \<forall>v.
                 map_of (entries item) ''expirationDate'' = Some v \<and>
                 new_Date P v = Some (now + d * 86400000) \<and>
                 (\<forall>i. clock i \<le> now + d * 86400000) \<and> text_filters P request item
                 \<longrightarrow> item \<in> set ys) \<and>
              (\<forall>item \<in> set xs. \<forall>v.
                 map_of (entries item) ''expirationDate'' = Some v \<and>
                 new_Date P v = Some (now + (d + 1) * 86400000) \<longrightarrow> item \<notin> set ys))"
proof -
  have t0: "truthy (database st)"
    using assms(1) by (rule items_of_truthy)
  have sp: "spread_items (database st) = Inr xs"
    using assms(1) by (auto simp: spread_items_def items_of_def split: sum.splits option.splits json.splits)
  let ?c = "text_wanted P ''category'' (category request)"
  let ?l = "text_wanted P ''location'' (location request)"
  let ?zs = "filter (text_filters P request) xs"
  let ?kept = "map snd (filter (\<lambda>(i, item). in_window P (clock i) limit item) (enumerate 0 ?zs))"
  have zs: "filter ?l (filter ?c xs) = ?zs"
    by (auto simp: text_filters_def intro: filter_cong)
  have v1: "list_all (valid_item P) (filter ?c xs)"
    using assms(2) by (auto simp: list_all_iff)
  have vz: "list_all (valid_item P) ?zs"
    using assms(2) by (auto simp: list_all_iff)
  have sub: "set ?kept \<subseteq> set ?zs"
    by (rule kept_subset)
  have vk: "list_all (valid_item P) ?kept"
    using vz sub unfolding list_all_iff by blast
  have s1: "(if truthy_str (category request)
          then filterE (text_match P ''category'' (case category request of Some c \<Rightarrow> c | None \<Rightarrow> [])) xs
          else Inr xs) = Inr (filter ?c xs)"
    using text_filter_step[OF assms(2), of "''category''"] by simp
  have s2: "(if truthy_str (location request)
          then filterE (text_match P ''location'' (case location request of Some c \<Rightarrow> c | None \<Rightarrow> []))
                 (filter ?c xs)
          else Inr (filter ?c xs)) = Inr ?zs"
  proof -
    have "(if truthy_str (location request)
          then filterE (text_match P ''location'' (case location request of Some c \<Rightarrow> c | None \<Rightarrow> []))
                 (filter ?c xs)
          else Inr (filter ?c xs)) = Inr (filter ?l (filter ?c xs))"
      by (rule text_filter_step[OF v1]) simp
    then show ?thesis
      by (simp only: zs)
  qed
  have pre: "\<forall>i. \<forall>x \<in> set ?zs.
          expires_by P (Some limit) (clock i) x = Inr (in_window P (clock i) limit x)"
    using assms(2,3) by (auto simp: list_all_iff expires_by_valid)
  have s3: "filter_at (\<lambda>i. expires_by P (addDays P now (daysThreshold request)) (clock i)) 0 ?zs
              = Inr ?kept"
    unfolding daysThreshold_cases[OF assms(5)] assms(6) by (rule filter_at_total[OF pre])
  from sort_by_name_valid[OF vk] obtain ys where
    ys: "sort_by_name P ?kept = Inr ys" "mset ys = mset ?kept"
    by blast
  have run: "listFoodItems P now clock request st = (Inr ys, st)"
    using assms(4) t0 sp s1 s2 s3 ys(1) by (simp add: listFoodItems_def)
  have mem: "set ys = {x. \<exists>i < length ?zs. ?zs ! i = x \<and> in_window P (clock i) limit x}"
    using mset_eq_setD[OF ys(2)] by (simp only: set_filter_enumerate)
  have frozen: "mset ys = mset (filter (\<lambda>item. text_filters P request item \<and>
                                           in_window P now limit item) xs)"
    if "\<forall>i. clock i = now"
  proof -
    have "?kept = filter (in_window P now limit) ?zs"
      using that by (simp add: map_snd_filter_enumerate)
    then show ?thesis
      using ys(2) by (simp add: conj_commute)
  qed
  have lower: "\<forall>item \<in> set ys. text_filters P request item \<and> in_window P now limit item"
    if "\<forall>i. now \<le> clock i"
    unfolding mem using that by (auto intro: in_window_mono dest: nth_mem)
  have upper: "\<forall>item \<in> set xs. text_filters P request item \<and> in_window P finish limit item
                 \<longrightarrow> item \<in> set ys"
    if "\<forall>i. clock i \<le> finish" for finish
  proof (intro ballI impI)
    fix item assume "item \<in> set xs" "text_filters P request item \<and> in_window P finish limit item"
    then have z: "item \<in> set ?zs" and w: "in_window P finish limit item" by auto
    from z obtain i where i: "i < length ?zs" "?zs ! i = item"
      unfolding in_set_conv_nth by blast
    have "in_window P (clock i) limit item"
      using w that by (auto intro: in_window_mono)
    with i show "item \<in> set ys"
      unfolding mem by blast
  qed
  have b1: "\<forall>item \<in> set xs. \<forall>v.
              map_of (entries item) ''expirationDate'' = Some v \<and> new_Date P v = Some limit \<and>
              (\<forall>i. clock i \<le> limit) \<and> text_filters P request item \<longrightarrow> item \<in> set ys"
  proof (intro ballI allI impI)
    fix item v assume i: "item \<in> set xs"
      and h: "map_of (entries item) ''expirationDate'' = Some v \<and> new_Date P v = Some limit \<and>
              (\<forall>i. clock i \<le> limit) \<and> text_filters P request item"
    then have "in_window P limit limit item"
      by (simp add: in_window_def)
    with upper[of limit] i h show "item \<in> set ys" by blast
  qed
  have b2: "\<forall>item \<in> set xs. \<forall>v t.
              map_of (entries item) ''expirationDate'' = Some v \<and> new_Date P v = Some t \<and>
              addDays P now (d + 1) = Some t \<and> limit < t \<longrightarrow> item \<notin> set ys"
    unfolding mem by (auto simp: in_window_def)
  have b3: "\<forall>item \<in> set xs. map_of (entries item) ''expirationDate'' = None \<longrightarrow> item \<notin> set ys"
    unfolding mem by (auto simp: in_window_def)
  have b4: "\<forall>item \<in> set xs. \<forall>v.
                 map_of (entries item) ''expirationDate'' = Some v \<and>
                 new_Date P v = Some (now + (d + 1) * 86400000) \<longrightarrow> item \<notin> set ys"
    if "limit = now + d * 86400000"
    unfolding mem using that by (auto simp: in_window_def)
  have b5: "\<forall>item \<in> set xs. \<forall>v.
                 map_of (entries item) ''expirationDate'' = Some v \<and>
                 new_Date P v = Some (now + d * 86400000) \<and>
                 (\<forall>i. clock i \<le> now + d * 86400000) \<and> text_filters P request item
                 \<longrightarrow> item \<in> set ys"
    if "limit = now + d * 86400000"
    using b1 that by simp
  have main: "listFoodItems P now clock request st = (Inr ys, st) \<and>
           mset ys = mset (map snd (filter (\<lambda>(i, item). in_window P (clock i) limit item)
                                      (enumerate 0 (filter (text_filters P request) xs))))"
    using run ys(2) by simp
  show ?thesis
    using main frozen lower upper b1 b2 b3 b4 b5 by blast
qed

theorem listFoodItems_expiring_soon_witness:
  "items_of (database \<lparr>database = envelope [milk, bread, rice], storage = empty_disk\<rparr>)
     = Some [milk, bread, rice] \<and>
   list_all (valid_item sample_platform) [milk, bread, rice] \<and>
   \<not> is_datetime sample_platform [] \<and>
   expiringSoon expiring_request = Some True \<and>
   (expiringSoonDays expiring_request = None \<and> (7::int) = 7 \<or>
    expiringSoonDays expiring_request = Some 7 \<and> (7::int) \<noteq> 0) \<and>
   addDays sample_platform 0 7 = Some 604800000 \<and>
   new_Date sample_platform (JStr ''1970-01-08T00:00:00.000Z'') = Some 604800000 \<and>
   new_Date sample_platform (JStr ''1970-01-09T00:00:00.000Z'') = addDays sample_platform 0 (7 + 1) \<and>
   listFoodItems sample_platform 0 (frozen 0) expiring_request
     \<lparr>database = envelope [milk, bread, rice], storage = empty_disk\<rparr>
   = (Inr [milk], \<lparr>database = envelope [milk, bread, rice], storage = empty_disk\<rparr>)"
proof -
  let ?st = "\<lparr>database = envelope [milk, bread, rice], storage = empty_disk\<rparr>"
  have h1: "items_of (database ?st) = Some [milk, bread, rice]"
    by (simp add: items_of_def envelope_def)
  have h2: "list_all (valid_item sample_platform) [milk, bread, rice]"
    by (simp add: valid_milk valid_bread valid_rice)
  have h3: "\<not> is_datetime sample_platform []"
    by (simp add: sample_platform_def calendar_def)
  have h4: "expiringSoon expiring_request = Some True"
    by (simp add: expiring_request_def)
  have h5: "expiringSoonDays expiring_request = None \<and> (7::int) = 7 \<or>
    expiringSoonDays expiring_request = Some 7 \<and> (7::int) \<noteq> 0"
    by (simp add: expiring_request_def)
  have h6: "addDays sample_platform 0 7 = Some 604800000"
    by (simp add: sample_platform_def utc_addDays_def)
  have d7: "new_Date sample_platform (JStr ''1970-01-08T00:00:00.000Z'') = Some 604800000"
    and d8: "new_Date sample_platform (JStr ''1970-01-09T00:00:00.000Z'')
               = addDays sample_platform 0 (7 + 1)"
    by (simp_all add: sample_platform_def calendar_def utc_addDays_def)
  have e1: "in_window sample_platform 0 604800000 milk"
    and e2: "\<not> in_window sample_platform 0 604800000 bread"
    and e3: "\<not> in_window sample_platform 0 604800000 rice"
    by (simp_all add: in_window_def entries_def milk_def bread_def rice_def
          sample_platform_def calendar_def)
  have kept: "filter (\<lambda>item. text_filters sample_platform expiring_request item \<and>
                             in_window sample_platform 0 604800000 item) [milk, bread, rice] = [milk]"
    by (simp add: e1 e2 e3 text_filters_def text_wanted_def expiring_request_def)
  have still: "\<forall>i. frozen 0 i = 0"
    by (simp add: frozen_def)
  from listFoodItems_expiring_soon [OF h1 h2 h3 h4 h5 h6, of "frozen 0"] still obtain ys where
    ys: "listFoodItems sample_platform 0 (frozen 0) expiring_request ?st = (Inr ys, ?st)"
        "mset ys = mset (filter (\<lambda>item. text_filters sample_platform expiring_request item \<and>
                             in_window sample_platform 0 604800000 item) [milk, bread, rice])"
    by blast
  from ys(2) have "ys = [milk]"
    unfolding kept by simp
  with ys(1) h1 h2 h3 h4 h5 h6 d7 d8 show ?thesis
    by blast
qed

text \<open>
  Outside these conditions the filter follows the code: where a calendar day of the
  window has 23 hours, an item expiring 7 times 24 hours from now is past the threshold
  and is dropped; and an item that expires at the instant of the call is dropped when the
  clock has advanced by the time it is tested.
\<close>

lemma listFoodItems_across_offset_change:
  "addDays spring_platform 0 7 = Some (7 * 86400000 - 3600000) \<and>
   new_Date spring_platform (JStr ''1970-01-08T00:00:00.000Z'') = Some (7 * 86400000) \<and>
   listFoodItems spring_platform 0 (frozen 0) expiring_request
     \<lparr>database = envelope [milk], storage = empty_disk\<rparr>
   = (Inr [], \<lparr>database = envelope [milk], storage = empty_disk\<rparr>)"
  by (simp add: listFoodItems_def spread_items_def envelope_def expiring_request_def
        truthy_str_def daysThreshold_def expires_by_def milk_def spring_platform_def
        sample_platform_def calendar_def frozen_def sort_by_name_def)

lemma listFoodItems_clock_advances:
  "listFoodItems sample_platform 604800000 (\<lambda>i. 604800000 + 1) expiring_request
     \<lparr>database = envelope [milk], storage = empty_disk\<rparr>
   = (Inr [], \<lparr>database = envelope [milk], storage = empty_disk\<rparr>)"
  by (simp add: listFoodItems_def spread_items_def envelope_def expiring_request_def
        truthy_str_def daysThreshold_def expires_by_def milk_def utc_addDays_def
        sample_platform_def calendar_def sort_by_name_def)

end
